theory Spec2Isabelle
  imports Complex_Main "HOL-Library.Multiset"
begin

section \<open>TR-13 runway survey calculator: tolerance evaluation and diagram geometry\<close>

text \<open>
  A shallow embedding of the numeric core of \<^verbatim>\<open>app.js\<close>: the fraction formatter,
  the station grids, the tolerance lookups, the rate-of-change metric, the survey CSV
  import and the geometry decisions of the SVG renderers.

  Number model. A finite JavaScript number is an exact rational (\<^typ>\<open>rat\<close>), so
  \<^verbatim>\<open>+\<close>, \<^verbatim>\<open>-\<close>, \<^verbatim>\<open>*\<close>, \<^verbatim>\<open>/\<close> and the comparisons are exact: IEEE-754
  rounding, overflow to \<^verbatim>\<open>Infinity\<close> and underflow are outside the model. A value that
  may be \<^verbatim>\<open>NaN\<close> or infinite is a \<^typ>\<open>rat option\<close> with \<open>None\<close> for the
  non-finite case; every comparison with \<^verbatim>\<open>NaN\<close> is false, and that is written out
  where the source relies on it.
\<close>

subsection \<open>Utilities\<close>

text \<open>
  \<^verbatim>\<open>function toNum(v, fallback = 0) { const n = Number(v);
     return Number.isFinite(n) ? n : fallback; }\<close>
  The argument is \<^verbatim>\<open>Number(v)\<close> already: \<open>Some n\<close> when it is finite.
\<close>

definition toNum :: "rat option \<Rightarrow> rat \<Rightarrow> rat" where
  "toNum v fallback = (case v of Some n \<Rightarrow> n | None \<Rightarrow> fallback)"

text \<open>
  An array read \<^verbatim>\<open>xs[i]\<close>: \<open>None\<close> is \<^verbatim>\<open>undefined\<close>, the value out of range.
  Arithmetic on \<^verbatim>\<open>undefined\<close> gives \<^verbatim>\<open>NaN\<close>.
\<close>

definition elemAt :: "'a list \<Rightarrow> nat \<Rightarrow> 'a option" where
  "elemAt xs i = (if i < length xs then Some (xs ! i) else None)"

subsection \<open>Correction-amount formatter\<close>

record frac =
  frac_val :: rat
  frac_s :: string

definition fracMap :: "frac list" where
  \<open>fracMap =
    [\<lparr>frac_val = 0, frac_s = ''0"''\<rparr>,
     \<lparr>frac_val = 0.0625, frac_s = ''1/16"''\<rparr>,
     \<lparr>frac_val = 0.125, frac_s = ''1/8"''\<rparr>,
     \<lparr>frac_val = 0.1875, frac_s = ''3/16"''\<rparr>,
     \<lparr>frac_val = 0.25, frac_s = ''1/4"''\<rparr>,
     \<lparr>frac_val = 0.3125, frac_s = ''5/16"''\<rparr>,
     \<lparr>frac_val = 0.375, frac_s = ''3/8"''\<rparr>,
     \<lparr>frac_val = 0.4375, frac_s = ''7/16"''\<rparr>,
     \<lparr>frac_val = 0.5, frac_s = ''1/2"''\<rparr>,
     \<lparr>frac_val = 0.625, frac_s = ''5/8"''\<rparr>,
     \<lparr>frac_val = 0.75, frac_s = ''3/4"''\<rparr>,
     \<lparr>frac_val = 0.875, frac_s = ''7/8"''\<rparr>,
     \<lparr>frac_val = 1, frac_s = ''1"''\<rparr>,
     \<lparr>frac_val = 1.125, frac_s = ''1 1/8"''\<rparr>,
     \<lparr>frac_val = 1.25, frac_s = ''1 1/4"''\<rparr>,
     \<lparr>frac_val = 1.5, frac_s = ''1 1/2"''\<rparr>,
     \<lparr>frac_val = 2, frac_s = ''2"''\<rparr>,
     \<lparr>frac_val = 3, frac_s = ''3"''\<rparr>]\<close>

text \<open>
  One pass of \<^verbatim>\<open>for (const f of fracMap) if (Math.abs(f.val - abs) <
  Math.abs(best.val - abs)) best = f;\<close>
\<close>

definition fracStep :: "rat \<Rightarrow> frac \<Rightarrow> frac \<Rightarrow> frac" where
  "fracStep a best f = (if \<bar>frac_val f - a\<bar> < \<bar>frac_val best - a\<bar> then f else best)"

definition nearestFractionStringInches :: "rat option \<Rightarrow> string" where
  "nearestFractionStringInches valueIn =
     (let a = \<bar>toNum valueIn 0\<bar>;
          best = foldl (fracStep a) (fracMap ! 0) fracMap
      in frac_s best)"

subsection \<open>Tolerance model\<close>

record zone =
  startFt :: rat
  endFt :: rat
  tolIn :: rat

text \<open>
  \<^verbatim>\<open>function tolAt(ft, zones, fallbackTol) { if (!zones) return fallbackTol;
     const z = zones.find(z => ft >= z.startFt && ft <= z.endFt);
     return z ? z.tolIn : fallbackTol; }\<close>
  \<open>None\<close> is \<^verbatim>\<open>null\<close>, which \<^verbatim>\<open>parseZones\<close> returns when no line is valid.
\<close>

definition tolAt :: "rat \<Rightarrow> zone list option \<Rightarrow> rat \<Rightarrow> rat" where
  "tolAt ft zones fallbackTol =
     (case zones of
        None \<Rightarrow> fallbackTol
      | Some zs \<Rightarrow>
          (case find (\<lambda>z. ft \<ge> startFt z \<and> ft \<le> endFt z) zs of
             Some z \<Rightarrow> tolIn z
           | None \<Rightarrow> fallbackTol))"

text \<open>
  The chart's tolerance window: \<^verbatim>\<open>{ type: "constant", tolIn }\<close> or
  \<^verbatim>\<open>{ type: "zones", zones }\<close>; \<open>OtherType\<close> is any other \<^verbatim>\<open>type\<close> tag.
\<close>

datatype tolWindow = Constant rat | Zones "zone list" | OtherType

text \<open>
  \<^verbatim>\<open>tolAtStation\<close> inside \<^verbatim>\<open>buildChartSvg\<close> (the first revision of the file
  calls the same closure \<^verbatim>\<open>tolAt(ft)\<close>):
  \<^verbatim>\<open>if (!tolWindow) return 0;
  if (tolWindow.type === "constant") return tolWindow.tolIn;
  if (tolWindow.type === "zones") {
    const z = tolWindow.zones.find(z => ft >= z.startFt && ft <= z.endFt);
    return z ? z.tolIn : (tolWindow.zones[tolWindow.zones.length - 1]?.tolIn ?? 0); }
  return 0;\<close>
\<close>

definition tolAtStation :: "tolWindow option \<Rightarrow> rat \<Rightarrow> rat" where
  "tolAtStation tolWindow ft =
     (case tolWindow of
        None \<Rightarrow> 0
      | Some (Constant t) \<Rightarrow> t
      | Some (Zones zs) \<Rightarrow>
          (case find (\<lambda>z. ft \<ge> startFt z \<and> ft \<le> endFt z) zs of
             Some z \<Rightarrow> tolIn z
           | None \<Rightarrow> (if zs = [] then 0 else tolIn (last zs)))
      | Some OtherType \<Rightarrow> 0)"

subsection \<open>Chart Y range\<close>

text \<open>
  \<^verbatim>\<open>function seriesMaxAbs(y) { let m = 0;
     for (const v of y) m = Math.max(m, Math.abs(v)); return m; }\<close>
\<close>

definition seriesMaxAbs :: "rat list \<Rightarrow> rat" where
  "seriesMaxAbs y = foldl (\<lambda>m v. max m \<bar>v\<bar>) 0 y"

text \<open>
  \<^verbatim>\<open>x || d\<close> on numbers: \<^verbatim>\<open>d\<close> when \<^verbatim>\<open>x\<close> is falsy, that is \<open>0\<close>
  (or \<^verbatim>\<open>NaN\<close>, which a finite \<open>x\<close> is not).
\<close>

definition orElse :: "rat \<Rightarrow> rat \<Rightarrow> rat" where
  "orElse x d = (if x = 0 then d else x)"

text \<open>
  \<^verbatim>\<open>evaluateAndRenderSurvey\<close>:
  \<^verbatim>\<open>const maxDev = Math.max(seriesMaxAbs(data.railN), seriesMaxAbs(data.railS), tol);
  const yAbsMax = (maxDev * 1.25) || 1;\<close>
  and \<^verbatim>\<open>buildStraightnessCharts\<close>:
  \<^verbatim>\<open>const yAbsMax = Math.max(maxDevN, maxDevS, tol) * 1.25 || 1;\<close>
\<close>

definition straightnessYAbsMax :: "rat list \<Rightarrow> rat list \<Rightarrow> rat \<Rightarrow> rat" where
  "straightnessYAbsMax railN railS tol =
     (let maxDev = max (max (seriesMaxAbs railN) (seriesMaxAbs railS)) tol
      in orElse (maxDev * 1.25) 1)"

text \<open>
  \<^verbatim>\<open>Math.max(...xs)\<close>: \<open>None\<close> is \<^verbatim>\<open>-Infinity\<close>, the value on an empty list.
\<close>

definition mathMax :: "rat list \<Rightarrow> rat option" where
  "mathMax xs = (case xs of [] \<Rightarrow> None | x # r \<Rightarrow> Some (fold max r x))"

definition mathMin :: "rat list \<Rightarrow> rat option" where
  "mathMin xs = (case xs of [] \<Rightarrow> None | x # r \<Rightarrow> Some (fold min r x))"

text \<open>
  The eccentricity chart (\<^verbatim>\<open>buildEccentricityChart\<close> and the eccentricity branch of
  \<^verbatim>\<open>evaluateAndRenderSurvey\<close>):
  \<^verbatim>\<open>const maxTol = zones ? Math.max(...zones.map(z => z.tolIn)) : tolFallback;  // 0.75
  const yAbsMax = Math.max(maxDev, maxTol) * 1.25 || 1;\<close>
\<close>

definition eccentricityYAbsMax :: "rat list \<Rightarrow> zone list option \<Rightarrow> rat" where
  "eccentricityYAbsMax eccN zones =
     (let maxDev = seriesMaxAbs eccN;
          m = (case zones of
                 None \<Rightarrow> max maxDev 0.75
               | Some zs \<Rightarrow>
                   (case mathMax (map tolIn zs) of
                      None \<Rightarrow> maxDev
                    | Some maxTol \<Rightarrow> max maxDev maxTol))
      in orElse (m * 1.25) 1)"

subsection \<open>Survey evaluation: per-station pass and fail\<close>

text \<open>
  The adjacent-station rate of \<^verbatim>\<open>evaluateAndRenderSurvey\<close>:
  \<^verbatim>\<open>if (i === 0) { rateN.push(0); ... continue; }
  const dx = Math.max(1e-6, data.stationFt[i] - data.stationFt[i - 1]);
  rateN.push(Math.abs(data.railN[i] - data.railN[i - 1]) * (20 / dx));\<close>
\<close>

definition adjacentRate :: "rat list \<Rightarrow> rat list \<Rightarrow> nat \<Rightarrow> rat option" where
  "adjacentRate stationFt y i =
     (if i = 0 then Some 0
      else case (elemAt stationFt i, elemAt stationFt (i - 1), elemAt y i, elemAt y (i - 1)) of
             (Some s1, Some s0, Some y1, Some y0) \<Rightarrow>
               (let dx = max (1 / 1000000) (s1 - s0) in Some (\<bar>y1 - y0\<bar> * (20 / dx)))
           | _ \<Rightarrow> None)"

record rowEval =
  magPass :: bool
  ratePass :: bool
  ok :: bool

text \<open>
  One table row of one rail:
  \<^verbatim>\<open>const nMagPass = Math.abs(data.railN[i]) <= tol;
  const nRatePass = rateN[i] <= rateTol;
  const nOK = nMagPass && nRatePass;\<close>
  The rows are the stations of the table, so \<open>i\<close> ranges over their indices; a
  comparison with \<^verbatim>\<open>NaN\<close> (a missing entry) is false.
\<close>

definition evaluateRail :: "rat list \<Rightarrow> rat list \<Rightarrow> rat \<Rightarrow> rat \<Rightarrow> rowEval list" where
  "evaluateRail stationFt rail tol rateTol =
     map (\<lambda>i. let mp = (case elemAt rail i of Some v \<Rightarrow> \<bar>v\<bar> \<le> tol | None \<Rightarrow> False);
                  rp = (case adjacentRate stationFt rail i of
                          Some r \<Rightarrow> r \<le> rateTol
                        | None \<Rightarrow> False)
              in \<lparr>magPass = mp, ratePass = rp, ok = (mp \<and> rp)\<rparr>)
         [0..<length stationFt]"

text \<open>\<^verbatim>\<open>passNAll = passNAll && nOK\<close> over the rows, from \<^verbatim>\<open>true\<close>.\<close>

definition passAll :: "rowEval list \<Rightarrow> bool" where
  "passAll rows = foldl (\<lambda>acc r. acc \<and> ok r) True rows"

subsection \<open>Cross-level diagram\<close>

record pt =
  pt_stationFt :: rat
  pt_valueIn :: rat

text \<open>
  \<^verbatim>\<open>const correctionText = (v) => { const req = Math.max(0, Math.abs(v) - tol);
     return req > 0 ? `V+${nearestFractionStringInches(req)}` : ""; };\<close>
\<close>

definition correctionText :: "rat \<Rightarrow> rat \<Rightarrow> string" where
  "correctionText tol v =
     (let req = max 0 (\<bar>v\<bar> - tol)
      in if req > 0 then ''V+'' @ nearestFractionStringInches (Some req) else [])"

text \<open>\<^verbatim>\<open>fails.indexOf(true)\<close> and \<^verbatim>\<open>fails.lastIndexOf(true)\<close>: \<open>-1\<close> when absent.\<close>

definition indexOfTrue :: "bool list \<Rightarrow> int" where
  "indexOfTrue bs = (case filter (\<lambda>i. bs ! i) [0..<length bs] of [] \<Rightarrow> - 1 | i # r \<Rightarrow> int i)"

definition lastIndexOfTrue :: "bool list \<Rightarrow> int" where
  "lastIndexOfTrue bs =
     (case rev (filter (\<lambda>i. bs ! i) [0..<length bs]) of [] \<Rightarrow> - 1 | i # r \<Rightarrow> int i)"

text \<open>
  What the renderers compute before they assemble the SVG text. \<open>EmptySvg msg\<close> is the
  document \<^verbatim>\<open>emptySvg(msg)\<close>: a white 1100 x 360 rectangle with the message as its only
  text. A drawn diagram is kept as its geometry: the horizontal span, the x pixel of each
  station, the fail flags, the bracket ends and the labels.
\<close>

record crossLevelDiagram =
  cl_spanFt :: rat
  cl_x :: "rat list"
  cl_fails :: "bool list"
  cl_firstFailIdx :: int
  cl_lastFailIdx :: int
  cl_valueLabel :: "string list"
  cl_corr :: "string list"

record chart =
  ch_xSpan :: rat
  ch_x :: "rat list"
  ch_yMin :: rat
  ch_yMax :: rat
  ch_upper :: "rat list"
  ch_lower :: "rat list"
  ch_series :: "rat list list"

datatype svg = EmptySvg string | CrossLevelSvg crossLevelDiagram | ChartSvg chart

text \<open>
  \<^verbatim>\<open>buildCrossLevelDiagramSvgString\<close> over the points of \<^verbatim>\<open>collectCrossLevelSeries\<close>:
  \<^verbatim>\<open>if (!pts.length) return emptySvg("No cross-level data available.");
  const W = 1100, marginL = 110, marginR = 50;
  const minFt = Math.min(...pts.map(p => p.stationFt));
  const maxFt = Math.max(...pts.map(p => p.stationFt));
  const spanFt = Math.max(1, maxFt - minFt);
  const plotW = W - marginL - marginR;
  const xForFt = (ft) => marginL + ((ft - minFt) / spanFt) * plotW;
  const fails = pts.map(p => Math.abs(p.valueIn) > tol);\<close>
\<close>

definition buildCrossLevelDiagramSvgString :: "rat \<Rightarrow> pt list \<Rightarrow> svg" where
  "buildCrossLevelDiagramSvgString tol pts =
     (case pts of
        [] \<Rightarrow> EmptySvg ''No cross-level data available.''
      | p # ps \<Rightarrow>
          (let minFt = fold min (map pt_stationFt ps) (pt_stationFt p);
               maxFt = fold max (map pt_stationFt ps) (pt_stationFt p);
               spanFt = max 1 (maxFt - minFt);
               plotW = 1100 - 110 - 50;
               xForFt = (\<lambda>ft. 110 + ((ft - minFt) / spanFt) * plotW);
               fails = map (\<lambda>q. \<bar>pt_valueIn q\<bar> > tol) pts
           in CrossLevelSvg
                \<lparr>cl_spanFt = spanFt,
                 cl_x = map (\<lambda>q. xForFt (pt_stationFt q)) pts,
                 cl_fails = fails,
                 cl_firstFailIdx = indexOfTrue fails,
                 cl_lastFailIdx = lastIndexOfTrue fails,
                 cl_valueLabel = map (\<lambda>q. nearestFractionStringInches (Some \<bar>pt_valueIn q\<bar>)) pts,
                 cl_corr = map (\<lambda>q. correctionText tol (pt_valueIn q)) pts\<rparr>))"

subsection \<open>Line charts\<close>

text \<open>
  \<^verbatim>\<open>buildChartSvg\<close>:
  \<^verbatim>\<open>const W = 1100; const margin = { l: 70, r: 40, t: 60, b: 50 };
  const plotW = W - margin.l - margin.r;
  const xMin = Math.min(...stationFt); const xMax = Math.max(...stationFt);
  const xSpan = Math.max(1e-6, xMax - xMin);
  const xToPx = (x) => margin.l + ((x - xMin) / xSpan) * plotW;
  const upper = stationFt.map(ft => tolAtStation(ft)); const lower = upper.map(v => -v);\<close>
  On an empty \<^verbatim>\<open>stationFt\<close> the difference is \<^verbatim>\<open>-Infinity\<close>, the span is
  \<^verbatim>\<open>1e-6\<close>, and no station is mapped to a pixel.
\<close>

definition chartXSpan :: "rat list \<Rightarrow> rat" where
  "chartXSpan stationFt =
     (case (mathMax stationFt, mathMin stationFt) of
        (Some xMax, Some xMin) \<Rightarrow> max (1 / 1000000) (xMax - xMin)
      | _ \<Rightarrow> 1 / 1000000)"

definition buildChartSvg ::
  "rat list \<Rightarrow> rat list list \<Rightarrow> rat \<Rightarrow> rat \<Rightarrow> tolWindow option \<Rightarrow> svg" where
  "buildChartSvg stationFt series yMin yMax tolWindow =
     (let xSpan = chartXSpan stationFt;
          plotW = 1100 - 70 - 40;
          upper = map (tolAtStation tolWindow) stationFt
      in ChartSvg
           \<lparr>ch_xSpan = xSpan,
            ch_x = (case mathMin stationFt of
                      None \<Rightarrow> []
                    | Some xMin \<Rightarrow> map (\<lambda>x. 70 + ((x - xMin) / xSpan) * plotW) stationFt),
            ch_yMin = yMin,
            ch_yMax = yMax,
            ch_upper = upper,
            ch_lower = map uminus upper,
            ch_series = series\<rparr>)"

text \<open>
  The parsed survey \<^verbatim>\<open>{ stationFt, railN, railS, beamN, beamS, hasBeam }\<close>.
\<close>

record surveyData =
  sd_stationFt :: "rat list"
  sd_railN :: "rat list"
  sd_railS :: "rat list"
  sd_beamN :: "rat option list"
  sd_beamS :: "rat option list"
  sd_hasBeam :: bool

text \<open>
  \<^verbatim>\<open>buildEccentricityChart\<close>; \<open>None\<close> in \<^verbatim>\<open>beamN\<close> is \<^verbatim>\<open>null\<close>, and
  \<^verbatim>\<open>toNum(null, 0)\<close> and \<^verbatim>\<open>toNum(undefined, 0)\<close> are \<open>0\<close>:
  \<^verbatim>\<open>if (!surveyData) return { svg: emptySvg("No survey data."), stats: null };
  const hasBeamN = beamN && beamN.some(v => v !== null && Number.isFinite(v));
  if (!hasBeamN) return { svg: emptySvg("Eccentricity requires BeamN/BeamS. ..."), ... };
  const eccN = railN.map((v, i) => v - toNum(beamN[i], 0));
  const zones = parseEccZones();
  ... buildChartSvg({ ..., tolWindow: zones ? { type: "zones", zones }
                                           : { type: "constant", tolIn: tolFallback } })\<close>
\<close>

definition buildEccentricityChart :: "surveyData option \<Rightarrow> zone list option \<Rightarrow> svg" where
  "buildEccentricityChart sd zones =
     (case sd of
        None \<Rightarrow> EmptySvg ''No survey data.''
      | Some d \<Rightarrow>
          if \<not> list_ex (\<lambda>v. v \<noteq> None) (sd_beamN d)
          then EmptySvg ''Eccentricity requires BeamN/BeamS. Provide BeamN & BeamS columns in CSV.''
          else
            (let eccN = map (\<lambda>i. sd_railN d ! i
                                     - (case elemAt (sd_beamN d) i of Some (Some b) \<Rightarrow> b | _ \<Rightarrow> 0))
                            [0..<length (sd_railN d)];
                 yAbsMax = eccentricityYAbsMax eccN zones
             in buildChartSvg (sd_stationFt d) [eccN] (- yAbsMax) yAbsMax
                  (case zones of
                     Some zs \<Rightarrow> Some (Zones zs)
                   | None \<Rightarrow> Some (Constant 0.75))))"

text \<open>
  \<^verbatim>\<open>buildStraightnessCharts\<close>:
  \<^verbatim>\<open>if (!surveyData) return { svg: emptySvg("No survey data."), stats: null };\<close>
  then the chart of both rails under the constant window \<^verbatim>\<open>tol\<close>.
\<close>

definition buildStraightnessCharts :: "surveyData option \<Rightarrow> rat \<Rightarrow> svg" where
  "buildStraightnessCharts sd tol =
     (case sd of
        None \<Rightarrow> EmptySvg ''No survey data.''
      | Some d \<Rightarrow>
          (let yAbsMax = straightnessYAbsMax (sd_railN d) (sd_railS d) tol
           in buildChartSvg (sd_stationFt d) [sd_railN d, sd_railS d] (- yAbsMax) yAbsMax
                (Some (Constant tol))))"

subsection \<open>Rate of change per 20 ft\<close>







subsection \<open>Station grids\<close>

text \<open>
  \<^verbatim>\<open>function stationOffsets(designDistanceFt, stationDistanceFt) {
     const offsets = [];
     for (let offset = 0; offset < designDistanceFt; offset += stationDistanceFt)
       offsets.push(offset);
     return offsets; }\<close>
  The loop has no bound of its own, so it is a partial function: \<open>None\<close> is a call
  that does not return.
\<close>

partial_function (option) stationOffsets_loop ::
  "rat \<Rightarrow> rat \<Rightarrow> rat \<Rightarrow> rat list \<Rightarrow> rat list option" where
  "stationOffsets_loop designDistanceFt stationDistanceFt offset offsets =
     (if offset < designDistanceFt
      then stationOffsets_loop designDistanceFt stationDistanceFt
             (offset + stationDistanceFt) (offsets @ [offset])
      else Some offsets)"

definition stationOffsets :: "rat \<Rightarrow> rat \<Rightarrow> rat list option" where
  "stationOffsets designDistanceFt stationDistanceFt =
     stationOffsets_loop designDistanceFt stationDistanceFt 0 []"

text \<open>
  \<^verbatim>\<open>buildLayout\<close>, the station fields of one segment:
  \<^verbatim>\<open>const columns = toNum(columnsPerSideInput.value, 0);
  const measuredStationDistance = toNum(measuredStationDistanceInput.value, 0);
  if (columns < 2 || measuredStationDistance <= 0) {
    summary.textContent = "Columns per side must be 2+ and ..."; return; }
  ... stationOffsets(designDistance, measuredStationDistance).forEach(...)\<close>
\<close>

datatype gridResult = ConfigError string | Stations "rat list"

definition buildLayout :: "rat option \<Rightarrow> rat option \<Rightarrow> rat \<Rightarrow> gridResult option" where
  "buildLayout columnsV distV designDistance =
     (let columns = toNum columnsV 0;
          measuredStationDistance = toNum distV 0
      in if columns < 2 \<or> measuredStationDistance \<le> 0
         then Some (ConfigError
           ''Columns per side must be 2+ and measured station distance must be greater than 0.'')
         else map_option Stations (stationOffsets designDistance measuredStationDistance))"

text \<open>
  \<^verbatim>\<open>collectCrossLevelSeries\<close> (and, with the same calls, the cross-level part of
  \<^verbatim>\<open>evaluateElevationRows\<close>) reads the same spacing field again, with no guard:
  \<^verbatim>\<open>const measuredStationDistance = toNum(measuredStationDistanceInput.value, 10);
  let cumulativeFt = 0;
  for (let segment = 1; segment < columns; segment += 1) {
    const sideADesignDistance = toNum(document.getElementById(...)?.value, 0);
    const sideBDesignDistance = toNum(document.getElementById(...)?.value, 0);
    const segmentLenFt = Math.min(sideADesignDistance, sideBDesignDistance);
    const offsets = stationOffsets(segmentLenFt, measuredStationDistance);
    offsets.forEach((offsetFt) => {
      const v = toNum(document.getElementById(`cross_segment_...`)?.value, 0);
      pts.push({ stationFt: cumulativeFt + offsetFt, valueIn: v }); });
    cumulativeFt += segmentLenFt; }\<close>
  A segment is the form's fields for it: the two designed distances and the cross-level
  field of each offset.
\<close>

record segment =
  sideADesign :: "rat option"
  sideBDesign :: "rat option"
  crossField :: "rat \<Rightarrow> rat option"

fun collectSegments :: "rat \<Rightarrow> rat \<Rightarrow> segment list \<Rightarrow> pt list \<Rightarrow> pt list option" where
  "collectSegments measuredStationDistance cumulativeFt [] pts = Some pts"
| "collectSegments measuredStationDistance cumulativeFt (sg # rest) pts =
     (let segmentLenFt = min (toNum (sideADesign sg) 0) (toNum (sideBDesign sg) 0)
      in case stationOffsets segmentLenFt measuredStationDistance of
           None \<Rightarrow> None
         | Some offsets \<Rightarrow>
             collectSegments measuredStationDistance (cumulativeFt + segmentLenFt) rest
               (pts @ map (\<lambda>offsetFt. \<lparr>pt_stationFt = cumulativeFt + offsetFt,
                                        pt_valueIn = toNum (crossField sg offsetFt) 0\<rparr>)
                          offsets))"

definition collectCrossLevelSeries :: "rat option \<Rightarrow> segment list \<Rightarrow> pt list option" where
  "collectCrossLevelSeries distV segments = collectSegments (toNum distV 10) 0 segments []"

text \<open>
  \<^verbatim>\<open>Number(ft.toFixed(3))\<close>: the nearest multiple of \<open>1/1000\<close>, the larger one on a
  tie, taken on the absolute value with the sign put back.
\<close>

definition toFixed3 :: "rat \<Rightarrow> rat" where
  "toFixed3 x =
     (if x < 0 then - (of_int \<lfloor>(- x) * 1000 + 1 / 2\<rfloor> / 1000)
      else of_int \<lfloor>x * 1000 + 1 / 2\<rfloor> / 1000)"

text \<open>
  \<^verbatim>\<open>buildSurveyStations\<close>:
  \<^verbatim>\<open>const startFt = toNum(surveyStartFtEl?.value, 0);
  const lenFt = toNum(surveyRunwayLengthFtEl?.value, 0);
  const stepFt = toNum(surveyStationSpacingFtEl?.value, 10);
  if (lenFt <= 0 || stepFt <= 0) {
    surveyStatusEl.textContent = "Enter a valid runway length and station spacing.";
    return; }
  const stations = [];
  for (let ft = startFt; ft <= startFt + lenFt + 1e-9; ft += stepFt)
    stations.push(Number(ft.toFixed(3)));\<close>
\<close>

partial_function (option) surveyStations_loop ::
  "rat \<Rightarrow> rat \<Rightarrow> rat \<Rightarrow> rat list \<Rightarrow> rat list option" where
  "surveyStations_loop limit stepFt ft stations =
     (if ft \<le> limit
      then surveyStations_loop limit stepFt (ft + stepFt) (stations @ [toFixed3 ft])
      else Some stations)"

definition buildSurveyStations ::
  "rat option \<Rightarrow> rat option \<Rightarrow> rat option \<Rightarrow> gridResult option" where
  "buildSurveyStations startV lenV stepV =
     (let startFt = toNum startV 0;
          lenFt = toNum lenV 0;
          stepFt = toNum stepV 10
      in if lenFt \<le> 0 \<or> stepFt \<le> 0
         then Some (ConfigError ''Enter a valid runway length and station spacing.'')
         else map_option Stations
                (surveyStations_loop (startFt + lenFt + 1 / 1000000000) stepFt startFt []))"

subsection \<open>Survey CSV import\<close>

text \<open>
  The string primitives of the runtime are parameters: \<open>cells\<close> is
  \<^verbatim>\<open>line.split(",").map(c => c.trim())\<close>, \<open>normalizeHeader\<close> is
  \<^verbatim>\<open>String(h || "").trim().toLowerCase()\<close>, and \<open>number\<close> is \<^verbatim>\<open>Number(v)\<close> when
  that is finite, on a cell or on \<^verbatim>\<open>undefined\<close> (\<open>None\<close>).

  \<^verbatim>\<open>parseCsv\<close>, from the trimmed non-blank lines of the text:
  \<^verbatim>\<open>if (lines.length < 2) return { headers: [], rows: [] };
  const headers = lines[0].split(",").map(h => h.trim());
  const rows = lines.slice(1).map(line => line.split(",").map(c => c.trim()));\<close>
\<close>

definition parseCsv ::
  "(string \<Rightarrow> string list) \<Rightarrow> string list \<Rightarrow> string list \<times> string list list" where
  "parseCsv cells lines =
     (if length lines < 2 then ([], []) else (cells (lines ! 0), map cells (tl lines)))"

text \<open>\<^verbatim>\<open>headers.forEach((h, i) => { idx[normalizeHeader(h)] = i; });\<close>\<close>

definition headerIndex :: "(string \<Rightarrow> string) \<Rightarrow> string list \<Rightarrow> (string \<rightharpoonup> nat)" where
  "headerIndex normalizeHeader headers =
     foldl (\<lambda>idx (h, i). idx(normalizeHeader h \<mapsto> i)) Map.empty
       (zip headers [0..<length headers])"

text \<open>\<^verbatim>\<open>r[idx[key]]\<close>\<close>

definition rowCell :: "(string \<rightharpoonup> nat) \<Rightarrow> string list \<Rightarrow> string \<Rightarrow> string option" where
  "rowCell idx r key = (case idx key of Some c \<Rightarrow> elemAt r c | None \<Rightarrow> None)"

text \<open>
  One row of the loop; the accumulator holds the five arrays.
  \<^verbatim>\<open>const st = toNum(r[idx[stationKey]], NaN);
  const rn = toNum(r[idx[railNKey]], NaN);
  const rs = toNum(r[idx[railSKey]], NaN);
  if (!Number.isFinite(st) || !Number.isFinite(rn) || !Number.isFinite(rs)) continue;
  stationFt.push(st); railN.push(rn); railS.push(rs);
  beamN.push(hasBeamN ? toNum(r[idx["beamn"]], 0) : null);
  beamS.push(hasBeamS ? toNum(r[idx["beams"]], 0) : null);\<close>
\<close>

definition pushRow ::
  "(string option \<Rightarrow> rat option) \<Rightarrow> (string \<rightharpoonup> nat) \<Rightarrow> bool \<Rightarrow> bool
     \<Rightarrow> surveyData \<Rightarrow> string list \<Rightarrow> surveyData" where
  "pushRow number idx hasBeamN hasBeamS acc r =
     (case (number (rowCell idx r ''stationft''),
            number (rowCell idx r ''railn''),
            number (rowCell idx r ''rails'')) of
        (Some st, Some rn, Some rs) \<Rightarrow>
          acc\<lparr>sd_stationFt := sd_stationFt acc @ [st],
              sd_railN := sd_railN acc @ [rn],
              sd_railS := sd_railS acc @ [rs],
              sd_beamN := sd_beamN acc
                @ [if hasBeamN then Some (toNum (number (rowCell idx r ''beamn'')) 0) else None],
              sd_beamS := sd_beamS acc
                @ [if hasBeamS then Some (toNum (number (rowCell idx r ''beams'')) 0) else None]\<rparr>
      | _ \<Rightarrow> acc)"

text \<open>
  \<^verbatim>\<open>const order = stationFt.map((v, i) => ({ v, i })).sort((a, b) => a.v - b.v)
                              .map(o => o.i);
  const sorted = (arr) => order.map(i => arr[i]);\<close>
  \<^verbatim>\<open>Array.prototype.sort\<close> is stable, as is \<^const>\<open>sort_key\<close>.
\<close>

definition sortOrder :: "rat list \<Rightarrow> nat list" where
  "sortOrder stationFt = map snd (sort_key fst (zip stationFt [0..<length stationFt]))"

definition sortedBy :: "nat list \<Rightarrow> 'a list \<Rightarrow> 'a list" where
  "sortedBy order arr = map (\<lambda>i. arr ! i) order"

datatype parseResult = NoData | Threw string | Parsed surveyData

text \<open>
  \<^verbatim>\<open>parseSurveyDataFromTextarea\<close> on the output of \<^verbatim>\<open>parseCsv\<close>: \<open>NoData\<close> is
  the \<^verbatim>\<open>null\<close> it returns, \<open>Threw\<close> the \<^verbatim>\<open>Error\<close> it throws.
\<close>

definition parseSurveyData ::
  "(string \<Rightarrow> string) \<Rightarrow> (string option \<Rightarrow> rat option) \<Rightarrow> string list \<Rightarrow> string list list
     \<Rightarrow> parseResult" where
  "parseSurveyData normalizeHeader number headers rows =
     (if headers = [] \<or> rows = [] then NoData
      else
        let idx = headerIndex normalizeHeader headers
        in if idx ''stationft'' = None \<or> idx ''railn'' = None \<or> idx ''rails'' = None
           then Threw ''CSV must include headers: StationFt, RailN, RailS (BeamN/BeamS optional).''
           else
             let hasBeamN = (idx ''beamn'' \<noteq> None);
                 hasBeamS = (idx ''beams'' \<noteq> None);
                 cols = foldl (pushRow number idx hasBeamN hasBeamS)
                          \<lparr>sd_stationFt = [], sd_railN = [], sd_railS = [],
                           sd_beamN = [], sd_beamS = [], sd_hasBeam = False\<rparr>
                          rows
             in if length (sd_stationFt cols) < 2
                then Threw ''Not enough valid rows parsed. Need at least 2 stations.''
                else
                  let order = sortOrder (sd_stationFt cols)
                  in Parsed
                       \<lparr>sd_stationFt = sortedBy order (sd_stationFt cols),
                        sd_railN = sortedBy order (sd_railN cols),
                        sd_railS = sortedBy order (sd_railS cols),
                        sd_beamN = sortedBy order (sd_beamN cols),
                        sd_beamS = sortedBy order (sd_beamS cols),
                        sd_hasBeam = (hasBeamN \<and> hasBeamS)\<rparr>)"

text \<open>
  The click handler of the parse button: the new value of the global \<^verbatim>\<open>surveyData\<close>
  that the chart builders read, and the status line.
  \<^verbatim>\<open>try { surveyData = parseSurveyDataFromTextarea();
        if (!surveyData) { surveyData = null;
          surveyStatusEl.textContent = "No survey data found. ..."; return; }
        renderSurveyCharts();   // "Survey parsed: n stations. Beam data present: ..."
  } catch (err) { surveyData = null;
        surveyStatusEl.textContent = `Survey parse error: ${err.message}`; }\<close>
\<close>

datatype surveyStatus = Message string | SurveyParsed nat bool

definition parseSurveyClick ::
  "(string \<Rightarrow> string list) \<Rightarrow> (string \<Rightarrow> string) \<Rightarrow> (string option \<Rightarrow> rat option)
     \<Rightarrow> string list \<Rightarrow> surveyData option \<times> surveyStatus" where
  "parseSurveyClick cells normalizeHeader number lines =
     (case parseCsv cells lines of
        (headers, rows) \<Rightarrow>
          (case parseSurveyData normalizeHeader number headers rows of
             NoData \<Rightarrow>
               (None, Message ''No survey data found. Paste CSV with StationFt,RailN,RailS.'')
           | Threw msg \<Rightarrow> (None, Message (''Survey parse error: '' @ msg))
           | Parsed d \<Rightarrow>
               (Some d, SurveyParsed (length (sd_stationFt d)) (sd_hasBeam d))))"

text \<open>
  For the statements about the import: a row is valid when its three required cells parse,
  and its values are the five entries the loop pushes. The table of a survey is its five
  arrays read row by row.
\<close>

definition validRow :: "(string option \<Rightarrow> rat option) \<Rightarrow> (string \<rightharpoonup> nat) \<Rightarrow> string list \<Rightarrow> bool" where
  "validRow number idx r =
     (number (rowCell idx r ''stationft'') \<noteq> None
      \<and> number (rowCell idx r ''railn'') \<noteq> None
      \<and> number (rowCell idx r ''rails'') \<noteq> None)"

type_synonym surveyRow = "rat \<times> rat \<times> rat \<times> rat option \<times> rat option"

definition rowValues ::
  "(string option \<Rightarrow> rat option) \<Rightarrow> (string \<rightharpoonup> nat) \<Rightarrow> string list \<Rightarrow> surveyRow" where
  "rowValues number idx r =
     (toNum (number (rowCell idx r ''stationft'')) 0,
      toNum (number (rowCell idx r ''railn'')) 0,
      toNum (number (rowCell idx r ''rails'')) 0,
      (if idx ''beamn'' \<noteq> None then Some (toNum (number (rowCell idx r ''beamn'')) 0) else None),
      (if idx ''beams'' \<noteq> None then Some (toNum (number (rowCell idx r ''beams'')) 0) else None))"

definition tableOf :: "surveyData \<Rightarrow> surveyRow list" where
  "tableOf d =
     zip (sd_stationFt d) (zip (sd_railN d) (zip (sd_railS d) (zip (sd_beamN d) (sd_beamS d))))"

subsection \<open>A sample import\<close>

text \<open>
  Concrete string primitives for one small CSV text, to run the import on: the header line
  and the lines \<^verbatim>\<open>10,3,4\<close> and \<^verbatim>\<open>0,1,2\<close> split into their cells, any other line
  is one cell that is not a number.
\<close>

definition sampleCells :: "string \<Rightarrow> string list" where
  "sampleCells line =
     (if line = ''StationFt,RailN,RailS'' then [''StationFt'', ''RailN'', ''RailS'']
      else if line = ''10,3,4'' then [''10'', ''3'', ''4'']
      else if line = ''0,1,2'' then [''0'', ''1'', ''2'']
      else [line])"

definition sampleNormalize :: "string \<Rightarrow> string" where
  "sampleNormalize h =
     (if h = ''StationFt'' then ''stationft''
      else if h = ''RailN'' then ''railn''
      else if h = ''RailS'' then ''rails''
      else h)"

definition sampleNumber :: "string option \<Rightarrow> rat option" where
  "sampleNumber c =
     (if c = Some ''0'' then Some 0
      else if c = Some ''1'' then Some 1
      else if c = Some ''2'' then Some 2
      else if c = Some ''3'' then Some 3
      else if c = Some ''4'' then Some 4
      else if c = Some ''10'' then Some 10
      else None)"

subsection \<open>Reading a rendered document\<close>

text \<open>
  What a statement reads off a document: the fail flags of a cross-level diagram (none on
  a placeholder) and the horizontal span a drawing divides by (\<open>None\<close> on a
  placeholder, which has no scale).
\<close>

definition crossLevelFails :: "svg \<Rightarrow> bool list" where
  "crossLevelFails doc = (case doc of CrossLevelSvg g \<Rightarrow> cl_fails g | _ \<Rightarrow> [])"

definition horizontalSpan :: "svg \<Rightarrow> rat option" where
  "horizontalSpan doc =
     (case doc of
        EmptySvg msg \<Rightarrow> None
      | CrossLevelSvg g \<Rightarrow> Some (cl_spanFt g)
      | ChartSvg c \<Rightarrow> Some (ch_xSpan c))"

section \<open>Helper lemmas\<close>








lemma evaluateRail_magPass:
  assumes "length rail = length stationFt" "i < length stationFt"
  shows "magPass (evaluateRail stationFt rail tol rateTol ! i) = (\<bar>rail ! i\<bar> \<le> tol)"
  using assms by (simp add: evaluateRail_def elemAt_def Let_def)

lemma crossLevelFails_eq:
  "crossLevelFails (buildCrossLevelDiagramSvgString tol pts) = map (\<lambda>p. \<bar>pt_valueIn p\<bar> > tol) pts"
  by (cases pts) (simp_all add: buildCrossLevelDiagramSvgString_def crossLevelFails_def Let_def)

lemma find_first:
  "k < length zs \<Longrightarrow> P (zs ! k) \<Longrightarrow> (\<forall>j<k. \<not> P (zs ! j)) \<Longrightarrow> find P zs = Some (zs ! k)"
proof (induction zs arbitrary: k)
  case Nil
  then show ?case by simp
next
  case (Cons z zs)
  show ?case
  proof (cases k)
    case 0
    with Cons.prems show ?thesis by simp
  next
    case (Suc m)
    have nz: "\<not> P z" using Cons.prems Suc by auto
    have "\<forall>j<m. \<not> P (zs ! j)"
    proof (intro allI impI)
      fix j assume "j < m"
      then have "Suc j < k" using Suc by simp
      with Cons.prems(3) have "\<not> P ((z # zs) ! Suc j)" by blast
      then show "\<not> P (zs ! j)" by simp
    qed
    moreover have "m < length zs" "P (zs ! m)" using Cons.prems Suc by auto
    ultimately have "find P zs = Some (zs ! m)" using Cons.IH [of m] by blast
    with nz show ?thesis using Suc by simp
  qed
qed

lemma foldl_max_abs_ge: "m \<le> foldl (\<lambda>m v. max m \<bar>v\<bar>) m (y :: rat list)"
proof (induction y arbitrary: m)
  case Nil
  show ?case by simp
next
  case (Cons v y)
  have "m \<le> max m \<bar>v\<bar>" by simp
  also have "\<dots> \<le> foldl (\<lambda>m v. max m \<bar>v\<bar>) (max m \<bar>v\<bar>) y" by (rule Cons.IH)
  finally show ?case by simp
qed

lemma seriesMaxAbs_nonneg: "0 \<le> seriesMaxAbs y"
  unfolding seriesMaxAbs_def by (rule foldl_max_abs_ge)

lemma foldl_max_abs_Max:
  "foldl (\<lambda>m v. max m \<bar>v\<bar>) m (y :: rat list) = Max (insert m ((\<lambda>v. \<bar>v\<bar>) ` set y))"
proof (induction y arbitrary: m)
  case Nil
  show ?case by simp
next
  case (Cons v y)
  have "foldl (\<lambda>m v. max m \<bar>v\<bar>) m (v # y) = Max (insert (max m \<bar>v\<bar>) ((\<lambda>v. \<bar>v\<bar>) ` set y))"
    using Cons.IH [of "max m \<bar>v\<bar>"] by simp
  also have "\<dots> = Max (insert m (insert \<bar>v\<bar> ((\<lambda>v. \<bar>v\<bar>) ` set y)))"
    by (cases "set y = {}") (simp_all add: max.assoc)
  finally show ?case by simp
qed

lemma seriesMaxAbs_Max: "seriesMaxAbs y = Max (insert 0 ((\<lambda>v. \<bar>v\<bar>) ` set y))"
  unfolding seriesMaxAbs_def by (rule foldl_max_abs_Max)

lemma straightnessYAbsMax_eq:
  "straightnessYAbsMax n s tol =
     (if max (max (seriesMaxAbs n) (seriesMaxAbs s)) tol = 0 then 1
      else max (max (seriesMaxAbs n) (seriesMaxAbs s)) tol * (5 / 4))"
  by (simp add: straightnessYAbsMax_def orElse_def Let_def)

lemma straightnessYAbsMax_pos: "0 < straightnessYAbsMax n s tol"
proof -
  have "0 \<le> max (max (seriesMaxAbs n) (seriesMaxAbs s)) tol"
    using seriesMaxAbs_nonneg [of n] by (simp add: le_max_iff_disj)
  then show ?thesis unfolding straightnessYAbsMax_eq by auto
qed

lemma eccentricityYAbsMax_pos: "0 < eccentricityYAbsMax e zones"
proof -
  have "0 \<le> seriesMaxAbs e" by (rule seriesMaxAbs_nonneg)
  then show ?thesis
    by (auto simp add: eccentricityYAbsMax_def orElse_def Let_def le_max_iff_disj
        split: option.splits)
qed










lemma map_upt_shift:
  "map f [0..<Suc m] = f 0 # map (\<lambda>k. f (Suc k)) [0..<m]"
  by (simp add: upt_conv_Cons map_Suc_upt [symmetric] del: upt_Suc)




lemma stationOffsets_loop_returns:
  "stationOffsets_loop d s off acc = Some r \<Longrightarrow> \<not> (s \<le> 0 \<and> off < d)"
proof (erule stationOffsets_loop.raw_induct [rotated])
  fix loop :: "rat \<Rightarrow> rat \<Rightarrow> rat \<Rightarrow> rat list \<Rightarrow> rat list option"
  fix d s off :: rat and acc r :: "rat list"
  assume ih: "\<And>d s off acc r. loop d s off acc = Some r \<Longrightarrow> \<not> (s \<le> 0 \<and> off < d)"
    and eq: "(if off < d then loop d s (off + s) (acc @ [off]) else Some acc) = Some r"
  show "\<not> (s \<le> 0 \<and> off < d)"
  proof
    assume h: "s \<le> 0 \<and> off < d"
    then have "loop d s (off + s) (acc @ [off]) = Some r" using eq by simp
    then have "\<not> (s \<le> 0 \<and> off + s < d)" by (rule ih)
    with h show False by simp
  qed
qed

lemma stationOffsets_loop_diverges:
  assumes "s \<le> 0" "off < d"
  shows "stationOffsets_loop d s off acc = None"
proof (cases "stationOffsets_loop d s off acc")
  case None
  then show ?thesis .
next
  case (Some r)
  then have "\<not> (s \<le> 0 \<and> off < d)" by (rule stationOffsets_loop_returns)
  with assms show ?thesis by simp
qed

lemma stationOffsets_diverges: "s \<le> 0 \<Longrightarrow> 0 < d \<Longrightarrow> stationOffsets d s = None"
  by (simp add: stationOffsets_def stationOffsets_loop_diverges)

lemma stationOffsets_nonpos_length: "d \<le> 0 \<Longrightarrow> stationOffsets d s = Some []"
  unfolding stationOffsets_def by (subst stationOffsets_loop.simps) simp


lemma surveyStations_loop_pos:
  assumes s: "0 < s"
  shows "nat (\<lfloor>(lm - ft) / s\<rfloor> + 1) = n \<Longrightarrow>
         surveyStations_loop lm s ft acc
           = Some (acc @ map (\<lambda>k. toFixed3 (ft + of_nat k * s)) [0..<n])"
proof (induction n arbitrary: ft acc)
  case 0
  then have "\<lfloor>(lm - ft) / s\<rfloor> < 0" by linarith
  then have "(lm - ft) / s < 0" by (simp add: floor_less_iff)
  then have "lm - ft < 0" using s by (simp add: divide_less_0_iff)
  then have "\<not> ft \<le> lm" by simp
  then show ?case by (subst surveyStations_loop.simps) simp
next
  case (Suc m)
  then have "0 \<le> \<lfloor>(lm - ft) / s\<rfloor>" by linarith
  then have "0 \<le> (lm - ft) / s" by (simp add: le_floor_iff)
  then have le: "ft \<le> lm" using s by (simp add: zero_le_divide_iff)
  have "(lm - (ft + s)) / s = (lm - ft) / s - 1" using s by (simp add: field_simps)
  then have "\<lfloor>(lm - (ft + s)) / s\<rfloor> = \<lfloor>(lm - ft) / s\<rfloor> - 1" by simp
  then have "nat (\<lfloor>(lm - (ft + s)) / s\<rfloor> + 1) = m" using Suc.prems by linarith
  then have ih: "surveyStations_loop lm s (ft + s) (acc @ [toFixed3 ft])
       = Some ((acc @ [toFixed3 ft]) @ map (\<lambda>k. toFixed3 ((ft + s) + of_nat k * s)) [0..<m])"
    by (rule Suc.IH)
  have "map (\<lambda>k. toFixed3 (ft + of_nat k * s)) [0..<Suc m]
       = toFixed3 ft # map (\<lambda>k. toFixed3 ((ft + s) + of_nat k * s)) [0..<m]"
    unfolding map_upt_shift by (simp add: algebra_simps)
  then show ?case using le ih by (subst surveyStations_loop.simps) simp
qed








lemma buildSurveyStations_guard:
  "toNum lenV 0 \<le> 0 \<or> toNum stepV 10 \<le> 0 \<Longrightarrow>
   buildSurveyStations startV lenV stepV
     = Some (ConfigError ''Enter a valid runway length and station spacing.'')"
  by (auto simp add: buildSurveyStations_def Let_def)

lemma buildSurveyStations_total: "\<exists>r. buildSurveyStations startV lenV stepV = Some r"
proof (cases "toNum lenV 0 \<le> 0 \<or> toNum stepV 10 \<le> 0")
  case True
  then show ?thesis by (simp add: buildSurveyStations_guard)
next
  case False
  then have "0 < toNum stepV 10" by simp
  from surveyStations_loop_pos [OF this refl]
  show ?thesis using False by (simp add: buildSurveyStations_def Let_def)
qed


lemma crossLevel_empty:
  "buildCrossLevelDiagramSvgString tol [] = EmptySvg ''No cross-level data available.''"
  by (simp add: buildCrossLevelDiagramSvgString_def)

lemma fold_max_const:
  assumes "\<forall>x\<in>set xs. x = (c::rat)"
  shows "fold max xs c = c"
  using assms by (induction xs) simp_all

lemma fold_min_const:
  assumes "\<forall>x\<in>set xs. x = (c::rat)"
  shows "fold min xs c = c"
  using assms by (induction xs) simp_all

lemma crossLevel_span_eq:
  "horizontalSpan (buildCrossLevelDiagramSvgString tol (p # ps))
     = Some (max 1 (fold max (map pt_stationFt ps) (pt_stationFt p)
                    - fold min (map pt_stationFt ps) (pt_stationFt p)))"
  unfolding buildCrossLevelDiagramSvgString_def horizontalSpan_def Let_def
  by (simp only: list.case svg.case crossLevelDiagram.select_convs)

lemma crossLevel_span:
  assumes "pts \<noteq> []"
  shows "\<exists>sp. horizontalSpan (buildCrossLevelDiagramSvgString tol pts) = Some sp \<and> 1 \<le> sp
     \<and> ((\<forall>p\<in>set pts. \<forall>q\<in>set pts. pt_stationFt p = pt_stationFt q) \<longrightarrow> sp = 1)"
proof -
  from assms obtain p ps where pts: "pts = p # ps" by (cases pts) auto
  let ?mx = "fold max (map pt_stationFt ps) (pt_stationFt p)"
  let ?mn = "fold min (map pt_stationFt ps) (pt_stationFt p)"
  have sp: "horizontalSpan (buildCrossLevelDiagramSvgString tol pts) = Some (max 1 (?mx - ?mn))"
    unfolding pts by (rule crossLevel_span_eq)
  have ge: "1 \<le> max 1 (?mx - ?mn)" by (rule max.cobounded1)
  have "(\<forall>p\<in>set pts. \<forall>q\<in>set pts. pt_stationFt p = pt_stationFt q) \<longrightarrow> max 1 (?mx - ?mn) = 1"
  proof
    assume h: "\<forall>p\<in>set pts. \<forall>q\<in>set pts. pt_stationFt p = pt_stationFt q"
    have "\<forall>x\<in>set (map pt_stationFt ps). x = pt_stationFt p"
    proof
      fix x assume "x \<in> set (map pt_stationFt ps)"
      then obtain q where "q \<in> set ps" "x = pt_stationFt q" by auto
      moreover have "p \<in> set pts" "set ps \<subseteq> set pts" by (auto simp add: pts)
      ultimately show "x = pt_stationFt p" using h by blast
    qed
    then have "?mx = pt_stationFt p" "?mn = pt_stationFt p"
      by (simp_all only: fold_max_const fold_min_const)
    then show "max 1 (?mx - ?mn) = 1" by simp
  qed
  with sp ge show ?thesis by blast
qed


lemma chart_span:
  "\<exists>sp. horizontalSpan (buildChartSvg stationFt series yMin yMax tw) = Some sp
     \<and> 1 / 1000000 \<le> sp
     \<and> ((\<forall>x\<in>set stationFt. \<forall>y\<in>set stationFt. x = y) \<longrightarrow> sp = 1 / 1000000)"
proof -
  have sp: "horizontalSpan (buildChartSvg stationFt series yMin yMax tw)
      = Some (chartXSpan stationFt)"
    by (simp add: buildChartSvg_def horizontalSpan_def Let_def)
  have ge: "1 / 1000000 \<le> chartXSpan stationFt"
  proof (cases stationFt)
    case Nil
    then show ?thesis by (simp add: chartXSpan_def mathMax_def mathMin_def)
  next
    case (Cons x xs)
    have "chartXSpan stationFt = max (1 / 1000000) (fold max xs x - fold min xs x)"
      by (simp add: Cons chartXSpan_def mathMax_def mathMin_def)
    then show ?thesis by (simp only: max.cobounded1)
  qed
  have "(\<forall>x\<in>set stationFt. \<forall>y\<in>set stationFt. x = y) \<longrightarrow> chartXSpan stationFt = 1 / 1000000"
  proof
    assume h: "\<forall>x\<in>set stationFt. \<forall>y\<in>set stationFt. x = y"
    show "chartXSpan stationFt = 1 / 1000000"
    proof (cases stationFt)
      case Nil
      then show ?thesis by (simp add: chartXSpan_def mathMax_def mathMin_def)
    next
      case (Cons x xs)
      with h have "\<forall>y\<in>set xs. y = x" by auto
      then have "fold max xs x = x" "fold min xs x = x"
        by (simp_all only: fold_max_const fold_min_const)
      then show ?thesis by (simp add: Cons chartXSpan_def mathMax_def mathMin_def)
    qed
  qed
  with sp ge show ?thesis by simp
qed

lemma ecc_nobeam_aux:
  "\<not> list_ex (\<lambda>v. v \<noteq> None) (sd_beamN d) \<Longrightarrow>
   buildEccentricityChart (Some d) zones
     = EmptySvg ''Eccentricity requires BeamN/BeamS. Provide BeamN & BeamS columns in CSV.''"
  unfolding buildEccentricityChart_def
  by (simp only: option.case not_False_eq_True if_True)

lemma ecc_nobeam:
  assumes "\<forall>v\<in>set (sd_beamN d). v = None"
  shows "buildEccentricityChart (Some d) zones
     = EmptySvg ''Eccentricity requires BeamN/BeamS. Provide BeamN & BeamS columns in CSV.''"
proof -
  have "\<not> list_ex (\<lambda>v. v \<noteq> None) (sd_beamN d)"
    using assms unfolding list_ex_iff by blast
  then show ?thesis by (rule ecc_nobeam_aux)
qed

lemma chart_span_eq:
  "horizontalSpan (buildChartSvg stationFt series yMin yMax tw) = Some (chartXSpan stationFt)"
  by (simp add: buildChartSvg_def horizontalSpan_def Let_def)

lemma ecc_chart_span:
  "list_ex (\<lambda>v. v \<noteq> None) (sd_beamN d) \<Longrightarrow>
   horizontalSpan (buildEccentricityChart (Some d) zones) = Some (chartXSpan (sd_stationFt d))"
  unfolding buildEccentricityChart_def Let_def
  by (simp only: option.case if_not_P not_not if_False if_True chart_span_eq)

lemma insort_key_map:
  "insort_key k (g x) (map g ys) = map g (insort_key (\<lambda>x. k (g x)) x ys)"
  by (induction ys) simp_all

lemma sort_key_map:
  "sort_key k (map g xs) = map g (sort_key (\<lambda>x. k (g x)) xs)"
  by (induction xs) (simp_all add: insort_key_map)

lemma zip_upt_nth:
  assumes "length vs = length ks"
  shows "zip ks vs = map (\<lambda>p. (fst p, vs ! snd p)) (zip ks [0..<length ks])"
  using assms by (intro nth_equalityI) simp_all

lemma sortedBy_sortOrder:
  assumes "length vs = length ks"
  shows "sortedBy (sortOrder ks) vs = map snd (sort_key fst (zip ks vs))"
proof -
  let ?g = "\<lambda>p :: rat \<times> nat. (fst p, vs ! snd p)"
  have "sort_key fst (zip ks vs) = sort_key fst (map ?g (zip ks [0..<length ks]))"
    using zip_upt_nth [OF assms] by simp
  also have "\<dots> = map ?g (sort_key (\<lambda>x. fst (?g x)) (zip ks [0..<length ks]))"
    by (rule sort_key_map)
  also have "(\<lambda>x. fst (?g x)) = fst" by (intro ext) simp
  finally have "map snd (sort_key fst (zip ks vs))
      = map (\<lambda>p. vs ! snd p) (sort_key fst (zip ks [0..<length ks]))"
    by (simp add: comp_def)
  then show ?thesis by (simp add: sortedBy_def sortOrder_def comp_def)
qed

lemma sortedBy_column:
  "sortedBy (sortOrder (map fst T)) (map f T) = map f (sort_key fst T)"
proof -
  let ?g = "\<lambda>t. (fst t, f t)"
  have "sortedBy (sortOrder (map fst T)) (map f T)
      = map snd (sort_key fst (zip (map fst T) (map f T)))"
    by (rule sortedBy_sortOrder) simp
  also have "zip (map fst T) (map f T) = map ?g T" by (induction T) simp_all
  also have "sort_key fst (map ?g T) = map ?g (sort_key (\<lambda>x. fst (?g x)) T)"
    by (rule sort_key_map)
  finally show ?thesis by (simp add: comp_def)
qed

lemma zip_columns:
  "zip (map fst T) (zip (map (\<lambda>t. fst (snd t)) T) (zip (map (\<lambda>t. fst (snd (snd t))) T)
     (zip (map (\<lambda>t. fst (snd (snd (snd t)))) T) (map (\<lambda>t. snd (snd (snd (snd t)))) T)))) = T"
  by (induction T) simp_all

lemma pushRow_valid:
  assumes "hn = (idx ''beamn'' \<noteq> None)" "hs = (idx ''beams'' \<noteq> None)"
    and "validRow number idx r"
  shows "pushRow number idx hn hs acc r
     = acc\<lparr>sd_stationFt := sd_stationFt acc @ [fst (rowValues number idx r)],
           sd_railN := sd_railN acc @ [fst (snd (rowValues number idx r))],
           sd_railS := sd_railS acc @ [fst (snd (snd (rowValues number idx r)))],
           sd_beamN := sd_beamN acc @ [fst (snd (snd (snd (rowValues number idx r))))],
           sd_beamS := sd_beamS acc @ [snd (snd (snd (snd (rowValues number idx r))))]\<rparr>"
  using assms by (auto simp add: validRow_def pushRow_def rowValues_def toNum_def)

lemma pushRow_invalid:
  "\<not> validRow number idx r \<Longrightarrow> pushRow number idx hn hs acc r = acc"
  by (auto simp add: validRow_def pushRow_def split: option.splits)

lemma foldl_pushRow:
  assumes hn: "hn = (idx ''beamn'' \<noteq> None)" and hs: "hs = (idx ''beams'' \<noteq> None)"
  shows "foldl (pushRow number idx hn hs) acc rows
     = acc\<lparr>sd_stationFt := sd_stationFt acc
               @ map (\<lambda>r. fst (rowValues number idx r)) (filter (validRow number idx) rows),
           sd_railN := sd_railN acc
               @ map (\<lambda>r. fst (snd (rowValues number idx r))) (filter (validRow number idx) rows),
           sd_railS := sd_railS acc
               @ map (\<lambda>r. fst (snd (snd (rowValues number idx r))))
                   (filter (validRow number idx) rows),
           sd_beamN := sd_beamN acc
               @ map (\<lambda>r. fst (snd (snd (snd (rowValues number idx r)))))
                   (filter (validRow number idx) rows),
           sd_beamS := sd_beamS acc
               @ map (\<lambda>r. snd (snd (snd (snd (rowValues number idx r)))))
                   (filter (validRow number idx) rows)\<rparr>"
proof (induction rows arbitrary: acc)
  case Nil
  show ?case by simp
next
  case (Cons r rows)
  show ?case
  proof (cases "validRow number idx r")
    case True
    have "foldl (pushRow number idx hn hs) acc (r # rows)
        = foldl (pushRow number idx hn hs) (pushRow number idx hn hs acc r) rows"
      by simp
    also note Cons.IH
    finally show ?thesis
      using True by (simp add: pushRow_valid [OF hn hs True])
  next
    case False
    have "foldl (pushRow number idx hn hs) acc (r # rows)
        = foldl (pushRow number idx hn hs) acc rows"
      using False by (simp add: pushRow_invalid)
    also note Cons.IH
    finally show ?thesis using False by simp
  qed
qed

lemma headerIndex_Nil: "headerIndex normalizeHeader [] = Map.empty"
  by (simp add: headerIndex_def)

lemma parseSurveyData_ok:
  assumes idx: "idx = headerIndex normalizeHeader headers"
    and req: "idx ''stationft'' \<noteq> None" "idx ''railn'' \<noteq> None" "idx ''rails'' \<noteq> None"
    and rows: "rows \<noteq> []"
    and T: "T = map (rowValues number idx) (filter (validRow number idx) rows)"
  shows "parseSurveyData normalizeHeader number headers rows =
     (if length T < 2 then Threw ''Not enough valid rows parsed. Need at least 2 stations.''
      else Parsed \<lparr>sd_stationFt = map fst (sort_key fst T),
                   sd_railN = map (\<lambda>t. fst (snd t)) (sort_key fst T),
                   sd_railS = map (\<lambda>t. fst (snd (snd t))) (sort_key fst T),
                   sd_beamN = map (\<lambda>t. fst (snd (snd (snd t)))) (sort_key fst T),
                   sd_beamS = map (\<lambda>t. snd (snd (snd (snd t)))) (sort_key fst T),
                   sd_hasBeam = (idx ''beamn'' \<noteq> None \<and> idx ''beams'' \<noteq> None)\<rparr>)"
proof -
  have hne: "headers \<noteq> []" using idx req(1) by (auto simp add: headerIndex_Nil)
  let ?cols = "foldl (pushRow number idx (idx ''beamn'' \<noteq> None) (idx ''beams'' \<noteq> None))
                 \<lparr>sd_stationFt = [], sd_railN = [], sd_railS = [],
                  sd_beamN = [], sd_beamS = [], sd_hasBeam = False\<rparr> rows"
  have cols: "?cols = \<lparr>sd_stationFt = map fst T,
                        sd_railN = map (\<lambda>t. fst (snd t)) T,
                        sd_railS = map (\<lambda>t. fst (snd (snd t))) T,
                        sd_beamN = map (\<lambda>t. fst (snd (snd (snd t)))) T,
                        sd_beamS = map (\<lambda>t. snd (snd (snd (snd t)))) T,
                        sd_hasBeam = False\<rparr>"
    by (subst foldl_pushRow [OF refl refl]) (simp add: T comp_def)
  have p: "parseSurveyData normalizeHeader number headers rows =
     (if length (sd_stationFt ?cols) < 2
      then Threw ''Not enough valid rows parsed. Need at least 2 stations.''
      else Parsed
             \<lparr>sd_stationFt = sortedBy (sortOrder (sd_stationFt ?cols)) (sd_stationFt ?cols),
              sd_railN = sortedBy (sortOrder (sd_stationFt ?cols)) (sd_railN ?cols),
              sd_railS = sortedBy (sortOrder (sd_stationFt ?cols)) (sd_railS ?cols),
              sd_beamN = sortedBy (sortOrder (sd_stationFt ?cols)) (sd_beamN ?cols),
              sd_beamS = sortedBy (sortOrder (sd_stationFt ?cols)) (sd_beamS ?cols),
              sd_hasBeam = (idx ''beamn'' \<noteq> None \<and> idx ''beams'' \<noteq> None)\<rparr>)"
    using hne rows req unfolding parseSurveyData_def Let_def idx [symmetric]
    by (simp only: if_False simp_thms)
  show ?thesis unfolding p cols
    by (simp only: surveyData.select_convs sortedBy_column length_map)
qed


lemma parseCsv_rows:
  assumes "parseCsv cells lines = (headers, rows)" "headers \<noteq> []"
  shows "rows \<noteq> []"
proof -
  have "\<not> length lines < 2" using assms by (auto simp add: parseCsv_def split: if_splits)
  then have "tl lines \<noteq> []" by (cases lines) auto
  moreover have "rows = map cells (tl lines)"
    using assms by (auto simp add: parseCsv_def split: if_splits)
  ultimately show ?thesis by simp
qed

lemma tableOf_columns:
  "tableOf \<lparr>sd_stationFt = map fst S,
            sd_railN = map (\<lambda>t. fst (snd t)) S,
            sd_railS = map (\<lambda>t. fst (snd (snd t))) S,
            sd_beamN = map (\<lambda>t. fst (snd (snd (snd t)))) S,
            sd_beamS = map (\<lambda>t. snd (snd (snd (snd t)))) S,
            sd_hasBeam = b\<rparr> = S"
  unfolding tableOf_def by (simp only: surveyData.select_convs zip_columns)

section \<open>The claims\<close>

subsection \<open>Per-point pass and fail\<close>

text \<open>
  C2. At every station the magnitude pass of a rail is \<open>\<bar>value\<bar> \<le> tolerance\<close>, boundary
  included: 0.30 against 0.25 fails and 0.25 against 0.25 passes. The cross-level diagram
  flags exactly the points with \<open>\<bar>value\<bar> > tolerance\<close>, the negation of that test.
\<close>

theorem magnitude_pass_inclusive:
  assumes "length rail = length stationFt" and "i < length stationFt"
  shows "magPass (evaluateRail stationFt rail tol rateTol ! i) = (\<bar>rail ! i\<bar> \<le> tol)
       \<and> crossLevelFails (buildCrossLevelDiagramSvgString tol pts)
           = map (\<lambda>p. \<not> \<bar>pt_valueIn p\<bar> \<le> tol) pts
       \<and> \<not> magPass (evaluateRail [0] [0.30] 0.25 rateTol ! 0)
       \<and> magPass (evaluateRail [0] [0.25] 0.25 rateTol ! 0)"
proof -
  have "magPass (evaluateRail stationFt rail tol rateTol ! i) = (\<bar>rail ! i\<bar> \<le> tol)"
    using assms by (rule evaluateRail_magPass)
  moreover have "crossLevelFails (buildCrossLevelDiagramSvgString tol pts)
      = map (\<lambda>p. \<not> \<bar>pt_valueIn p\<bar> \<le> tol) pts"
    by (simp add: crossLevelFails_eq not_le)
  moreover have "\<not> magPass (evaluateRail [0] [0.30] 0.25 rateTol ! 0)"
    by (simp add: evaluateRail_def elemAt_def Let_def)
  moreover have "magPass (evaluateRail [0] [0.25] 0.25 rateTol ! 0)"
    by (simp add: evaluateRail_def elemAt_def Let_def)
  ultimately show ?thesis by blast
qed

theorem magnitude_pass_inclusive_witness:
  "magPass (evaluateRail [0, 10] [1 / 10, 2 / 5] (1 / 4) 1 ! 0)
   \<and> \<not> magPass (evaluateRail [0, 10] [1 / 10, 2 / 5] (1 / 4) 1 ! 1)
   \<and> crossLevelFails (buildCrossLevelDiagramSvgString (1 / 4)
        [\<lparr>pt_stationFt = 0, pt_valueIn = 1 / 10\<rparr>, \<lparr>pt_stationFt = 10, pt_valueIn = - 2 / 5\<rparr>])
      = [False, True]"
proof -
  have len: "length [1 / 10, 2 / 5 :: rat] = length [0, 10 :: rat]" by simp
  have i0: "(0::nat) < length [0, 10 :: rat]" and i1: "(1::nat) < length [0, 10 :: rat]"
    by simp_all
  show ?thesis
    using magnitude_pass_inclusive [OF len i0, of "1 / 4" 1
            "[\<lparr>pt_stationFt = 0, pt_valueIn = 1 / 10\<rparr>, \<lparr>pt_stationFt = 10, pt_valueIn = - 2 / 5\<rparr>]"]
          magnitude_pass_inclusive [OF len i1, of "1 / 4" 1 "[]"]
    by simp
qed

subsection \<open>Tolerance resolution\<close>

text \<open>
  C4, as the code has it. Both lookups return the tolerance of the first zone, in input
  order, with \<open>startFt \<le> position \<le> endFt\<close>. When no zone contains the position they
  differ: \<^verbatim>\<open>tolAt\<close> returns the fallback its caller passes, and the chart's
  \<^verbatim>\<open>tolAtStation\<close> returns the tolerance of the last zone (0 for an empty zone list).
  With zones (0, 50, 0.25) and (50, 100, 0.5): 25 resolves to 0.25 and 75 to 0.5 on both
  paths; 150 resolves to the caller's fallback on the first and to 0.5 on the second.
\<close>

theorem tolerance_first_zone_and_fallbacks:
  "(\<forall>k. k < length zs \<and> startFt (zs ! k) \<le> ft \<and> ft \<le> endFt (zs ! k)
          \<and> (\<forall>j<k. \<not> (startFt (zs ! j) \<le> ft \<and> ft \<le> endFt (zs ! j)))
        \<longrightarrow> tolAt ft (Some zs) fallbackTol = tolIn (zs ! k)
            \<and> tolAtStation (Some (Zones zs)) ft = tolIn (zs ! k))
   \<and> ((\<forall>z\<in>set zs. \<not> (startFt z \<le> ft \<and> ft \<le> endFt z))
        \<longrightarrow> tolAt ft (Some zs) fallbackTol = fallbackTol
            \<and> tolAtStation (Some (Zones zs)) ft = (if zs = [] then 0 else tolIn (last zs)))
   \<and> tolAt 25 (Some [\<lparr>startFt = 0, endFt = 50, tolIn = 0.25\<rparr>,
                      \<lparr>startFt = 50, endFt = 100, tolIn = 0.5\<rparr>]) fallbackTol = 0.25
   \<and> tolAt 75 (Some [\<lparr>startFt = 0, endFt = 50, tolIn = 0.25\<rparr>,
                      \<lparr>startFt = 50, endFt = 100, tolIn = 0.5\<rparr>]) fallbackTol = 0.5
   \<and> tolAt 150 (Some [\<lparr>startFt = 0, endFt = 50, tolIn = 0.25\<rparr>,
                       \<lparr>startFt = 50, endFt = 100, tolIn = 0.5\<rparr>]) fallbackTol = fallbackTol
   \<and> tolAtStation (Some (Zones [\<lparr>startFt = 0, endFt = 50, tolIn = 0.25\<rparr>,
                                 \<lparr>startFt = 50, endFt = 100, tolIn = 0.5\<rparr>])) 25 = 0.25
   \<and> tolAtStation (Some (Zones [\<lparr>startFt = 0, endFt = 50, tolIn = 0.25\<rparr>,
                                 \<lparr>startFt = 50, endFt = 100, tolIn = 0.5\<rparr>])) 75 = 0.5
   \<and> tolAtStation (Some (Zones [\<lparr>startFt = 0, endFt = 50, tolIn = 0.25\<rparr>,
                                 \<lparr>startFt = 50, endFt = 100, tolIn = 0.5\<rparr>])) 150 = 0.5"
proof -
  let ?P = "\<lambda>z. ft \<ge> startFt z \<and> ft \<le> endFt z"
  have first: "\<forall>k. k < length zs \<and> startFt (zs ! k) \<le> ft \<and> ft \<le> endFt (zs ! k)
          \<and> (\<forall>j<k. \<not> (startFt (zs ! j) \<le> ft \<and> ft \<le> endFt (zs ! j)))
        \<longrightarrow> tolAt ft (Some zs) fallbackTol = tolIn (zs ! k)
            \<and> tolAtStation (Some (Zones zs)) ft = tolIn (zs ! k)"
  proof (intro allI impI)
    fix k
    assume h: "k < length zs \<and> startFt (zs ! k) \<le> ft \<and> ft \<le> endFt (zs ! k)
          \<and> (\<forall>j<k. \<not> (startFt (zs ! j) \<le> ft \<and> ft \<le> endFt (zs ! j)))"
    then have "find ?P zs = Some (zs ! k)"
      by (intro find_first) auto
    then show "tolAt ft (Some zs) fallbackTol = tolIn (zs ! k)
            \<and> tolAtStation (Some (Zones zs)) ft = tolIn (zs ! k)"
      by (simp add: tolAt_def tolAtStation_def)
  qed
  have none: "(\<forall>z\<in>set zs. \<not> (startFt z \<le> ft \<and> ft \<le> endFt z))
        \<longrightarrow> tolAt ft (Some zs) fallbackTol = fallbackTol
            \<and> tolAtStation (Some (Zones zs)) ft = (if zs = [] then 0 else tolIn (last zs))"
  proof
    assume "\<forall>z\<in>set zs. \<not> (startFt z \<le> ft \<and> ft \<le> endFt z)"
    then have "find ?P zs = None" by (simp add: find_None_iff)
    then show "tolAt ft (Some zs) fallbackTol = fallbackTol
            \<and> tolAtStation (Some (Zones zs)) ft = (if zs = [] then 0 else tolIn (last zs))"
      by (simp add: tolAt_def tolAtStation_def)
  qed
  show ?thesis
    apply (intro conjI)
           apply (rule first)
          apply (rule none)
         apply (simp_all add: tolAt_def tolAtStation_def)
    done
qed

theorem tolerance_first_zone_and_fallbacks_witness:
  "tolAt 50 (Some [\<lparr>startFt = 0, endFt = 50, tolIn = 1 / 4\<rparr>,
                   \<lparr>startFt = 50, endFt = 100, tolIn = 1 / 2\<rparr>]) (3 / 4) = 1 / 4
   \<and> tolAtStation (Some (Zones [\<lparr>startFt = 0, endFt = 50, tolIn = 1 / 4\<rparr>,
                                 \<lparr>startFt = 50, endFt = 100, tolIn = 1 / 2\<rparr>])) 50 = 1 / 4
   \<and> tolAt 200 (Some [\<lparr>startFt = 0, endFt = 50, tolIn = 1 / 4\<rparr>,
                      \<lparr>startFt = 50, endFt = 100, tolIn = 1 / 2\<rparr>]) (3 / 4) = 3 / 4
   \<and> tolAtStation (Some (Zones [\<lparr>startFt = 0, endFt = 50, tolIn = 1 / 4\<rparr>,
                                 \<lparr>startFt = 50, endFt = 100, tolIn = 1 / 2\<rparr>])) 200 = 1 / 2"
proof -
  let ?zs = "[\<lparr>startFt = 0, endFt = 50, tolIn = 1 / 4\<rparr>,
              \<lparr>startFt = 50, endFt = 100, tolIn = 1 / 2 :: rat\<rparr>]"
  note inst1 = tolerance_first_zone_and_fallbacks [of ?zs 50 "3 / 4"]
  note inst2 = tolerance_first_zone_and_fallbacks [of ?zs 200 "3 / 4"]
  have a: "tolAt 50 (Some ?zs) (3 / 4) = tolIn (?zs ! 0)
         \<and> tolAtStation (Some (Zones ?zs)) 50 = tolIn (?zs ! 0)"
  proof -
    have "(0::nat) < length ?zs \<and> startFt (?zs ! 0) \<le> 50 \<and> 50 \<le> endFt (?zs ! 0)
          \<and> (\<forall>j<0::nat. \<not> (startFt (?zs ! j) \<le> 50 \<and> 50 \<le> endFt (?zs ! j)))"
      by simp
    with inst1 [THEN conjunct1, THEN spec, of 0] show ?thesis by (rule mp)
  qed
  have b: "tolAt 200 (Some ?zs) (3 / 4) = 3 / 4
         \<and> tolAtStation (Some (Zones ?zs)) 200 = (if ?zs = [] then 0 else tolIn (last ?zs))"
  proof -
    have "\<forall>z\<in>set ?zs. \<not> (startFt z \<le> 200 \<and> 200 \<le> endFt z)" by simp
    with inst2 [THEN conjunct2, THEN conjunct1] show ?thesis by (rule mp)
  qed
  from a b show ?thesis by simp
qed

text \<open>
  C4 as stated fails: off every zone the two paths return different tolerances
  whenever the caller's fallback is not the last zone's tolerance (here 0.75, the
  eccentricity default, against 0.5).
\<close>

theorem tolerance_fallback_counterexample:
  "tolAt 150 (Some [\<lparr>startFt = 0, endFt = 50, tolIn = 0.25\<rparr>,
                    \<lparr>startFt = 50, endFt = 100, tolIn = 0.5\<rparr>]) 0.75
   \<noteq> tolAtStation (Some (Zones [\<lparr>startFt = 0, endFt = 50, tolIn = 0.25\<rparr>,
                                  \<lparr>startFt = 50, endFt = 100, tolIn = 0.5\<rparr>])) 150"
  by (simp add: tolAt_def tolAtStation_def)

subsection \<open>Correction-amount formatter\<close>



subsection \<open>Chart Y range\<close>

text \<open>
  C7, as the code has it. The half-range is 1.25 times the larger of the maximum absolute
  deviation of the channels and the tolerance, and it is replaced by 1 only when that
  product is zero. It is always positive; it is at least 1 exactly when the larger value
  is 0 or at least 0.8. The deviation maximum is the largest absolute value of the
  series, 0 for an empty one.
\<close>

theorem yAbsMax_scaled_or_one:
  "straightnessYAbsMax railN railS tol =
     (if max (max (seriesMaxAbs railN) (seriesMaxAbs railS)) tol = 0 then 1
      else max (max (seriesMaxAbs railN) (seriesMaxAbs railS)) tol * 1.25)
   \<and> 0 < straightnessYAbsMax railN railS tol
   \<and> (1 \<le> straightnessYAbsMax railN railS tol)
       = (max (max (seriesMaxAbs railN) (seriesMaxAbs railS)) tol = 0
          \<or> 0.8 \<le> max (max (seriesMaxAbs railN) (seriesMaxAbs railS)) tol)
   \<and> eccentricityYAbsMax eccN None =
     (if max (seriesMaxAbs eccN) 0.75 = 0 then 1 else max (seriesMaxAbs eccN) 0.75 * 1.25)
   \<and> 0 < eccentricityYAbsMax eccN zones
   \<and> seriesMaxAbs y = Max (insert 0 ((\<lambda>v. \<bar>v\<bar>) ` set y))"
proof -
  have a: "straightnessYAbsMax railN railS tol =
     (if max (max (seriesMaxAbs railN) (seriesMaxAbs railS)) tol = 0 then 1
      else max (max (seriesMaxAbs railN) (seriesMaxAbs railS)) tol * 1.25)"
    by (simp add: straightnessYAbsMax_eq)
  have c: "(1 \<le> straightnessYAbsMax railN railS tol)
       = (max (max (seriesMaxAbs railN) (seriesMaxAbs railS)) tol = 0
          \<or> 0.8 \<le> max (max (seriesMaxAbs railN) (seriesMaxAbs railS)) tol)"
    unfolding straightnessYAbsMax_eq by auto
  have d: "eccentricityYAbsMax eccN None =
     (if max (seriesMaxAbs eccN) 0.75 = 0 then 1 else max (seriesMaxAbs eccN) 0.75 * 1.25)"
    by (simp add: eccentricityYAbsMax_def orElse_def Let_def)
  from a c d straightnessYAbsMax_pos [of railN railS tol] eccentricityYAbsMax_pos [of eccN zones]
    seriesMaxAbs_Max [of y]
  show ?thesis by blast
qed

text \<open>
  C7 as stated fails: deviations of 0.1 and 0 under the default tolerance 0.375
  give a half-range of 0.46875, below 1.
\<close>

theorem yAbsMax_floor_counterexample:
  "straightnessYAbsMax [0.1] [0] 0.375 < 1"
  by (simp add: straightnessYAbsMax_def orElse_def Let_def seriesMaxAbs_def)

subsection \<open>Rate of change per 20 ft\<close>





subsection \<open>Station grids\<close>

text \<open>
  C3, at the failing input. \<^verbatim>\<open>stationOffsets(60, 0)\<close> and \<^verbatim>\<open>stationOffsets(60, -10)\<close> do
  not return, and neither does \<^verbatim>\<open>collectCrossLevelSeries\<close> when the spacing field holds
  0, since it calls \<^verbatim>\<open>stationOffsets\<close> without the check that \<^verbatim>\<open>buildLayout\<close> and
  \<^verbatim>\<open>buildSurveyStations\<close> make on the same input. A non-positive length does give the
  empty list.
\<close>

theorem stationOffsets_nonpositive_spacing_never_returns:
  "stationOffsets 60 0 = None
   \<and> stationOffsets 60 (- 10) = None
   \<and> collectCrossLevelSeries (Some 0)
        [\<lparr>sideADesign = Some 60, sideBDesign = Some 60, crossField = (\<lambda>offsetFt. Some 0)\<rparr>] = None
   \<and> buildLayout (Some 2) (Some 0) 60 = Some (ConfigError
        ''Columns per side must be 2+ and measured station distance must be greater than 0.'')
   \<and> buildSurveyStations (Some 0) (Some 60) (Some 0)
        = Some (ConfigError ''Enter a valid runway length and station spacing.'')
   \<and> stationOffsets 0 0 = Some []
   \<and> stationOffsets (- 5) 10 = Some []"
proof -
  have a: "stationOffsets 60 0 = None" by (rule stationOffsets_diverges) simp_all
  have b: "stationOffsets 60 (- 10) = None" by (rule stationOffsets_diverges) simp_all
  have c: "collectCrossLevelSeries (Some 0)
        [\<lparr>sideADesign = Some 60, sideBDesign = Some 60, crossField = (\<lambda>offsetFt. Some 0)\<rparr>] = None"
    using a by (simp add: collectCrossLevelSeries_def toNum_def)
  have d: "buildLayout (Some 2) (Some 0) 60 = Some (ConfigError
        ''Columns per side must be 2+ and measured station distance must be greater than 0.'')"
    by (simp add: buildLayout_def toNum_def)
  have e: "buildSurveyStations (Some 0) (Some 60) (Some 0)
        = Some (ConfigError ''Enter a valid runway length and station spacing.'')"
    by (rule buildSurveyStations_guard) (simp add: toNum_def)
  have f: "stationOffsets 0 0 = Some []" by (rule stationOffsets_nonpos_length) simp
  have g: "stationOffsets (- 5) 10 = Some []" by (rule stationOffsets_nonpos_length) simp
  from a b c d e f g show ?thesis by blast
qed



subsection \<open>Renderers on degenerate inputs\<close>

text \<open>
  C9, as the code has it. On an empty point series the cross-level diagram is the
  placeholder document with its message; without survey data the charts are the
  placeholder, and so is the eccentricity chart when no beam value is present. A drawn
  cross-level diagram divides by a span of at least 1, which is 1 when all stations
  coincide. A drawn chart divides by a span of at least 0.000001, which is 0.000001 (not 1)
  when all stations coincide. Neither scale divides by zero.
\<close>

theorem renderers_degenerate_inputs:
  "buildCrossLevelDiagramSvgString tol [] = EmptySvg ''No cross-level data available.''
   \<and> buildStraightnessCharts None tol = EmptySvg ''No survey data.''
   \<and> buildEccentricityChart None zones = EmptySvg ''No survey data.''
   \<and> ((\<forall>v\<in>set (sd_beamN d). v = None)
        \<longrightarrow> buildEccentricityChart (Some d) zones = EmptySvg
              ''Eccentricity requires BeamN/BeamS. Provide BeamN & BeamS columns in CSV.'')
   \<and> (pts \<noteq> []
        \<longrightarrow> (\<exists>sp. horizontalSpan (buildCrossLevelDiagramSvgString tol pts) = Some sp
               \<and> 1 \<le> sp
               \<and> ((\<forall>p\<in>set pts. \<forall>q\<in>set pts. pt_stationFt p = pt_stationFt q) \<longrightarrow> sp = 1)))
   \<and> (\<exists>sp. horizontalSpan (buildChartSvg stationFt series yMin yMax tolWindow) = Some sp
          \<and> 1 / 1000000 \<le> sp
          \<and> ((\<forall>x\<in>set stationFt. \<forall>y\<in>set stationFt. x = y) \<longrightarrow> sp = 1 / 1000000))"
proof (intro conjI impI)
  show "buildCrossLevelDiagramSvgString tol [] = EmptySvg ''No cross-level data available.''"
    by (rule crossLevel_empty)
next
  show "buildStraightnessCharts None tol = EmptySvg ''No survey data.''"
    by (simp add: buildStraightnessCharts_def)
next
  show "buildEccentricityChart None zones = EmptySvg ''No survey data.''"
    by (simp add: buildEccentricityChart_def)
next
  assume "\<forall>v\<in>set (sd_beamN d). v = None"
  then show "buildEccentricityChart (Some d) zones = EmptySvg
              ''Eccentricity requires BeamN/BeamS. Provide BeamN & BeamS columns in CSV.''"
    by (rule ecc_nobeam)
next
  assume "pts \<noteq> []"
  then show "\<exists>sp. horizontalSpan (buildCrossLevelDiagramSvgString tol pts) = Some sp
               \<and> 1 \<le> sp
               \<and> ((\<forall>p\<in>set pts. \<forall>q\<in>set pts. pt_stationFt p = pt_stationFt q) \<longrightarrow> sp = 1)"
    by (rule crossLevel_span)
next
  show "\<exists>sp. horizontalSpan (buildChartSvg stationFt series yMin yMax tolWindow) = Some sp
          \<and> 1 / 1000000 \<le> sp
          \<and> ((\<forall>x\<in>set stationFt. \<forall>y\<in>set stationFt. x = y) \<longrightarrow> sp = 1 / 1000000)"
    by (rule chart_span)
qed

theorem renderers_degenerate_inputs_witness:
  "buildEccentricityChart
      (Some \<lparr>sd_stationFt = [5, 5], sd_railN = [1 / 10, 1 / 5], sd_railS = [0, 0],
             sd_beamN = [None, None], sd_beamS = [None, None], sd_hasBeam = False\<rparr>) None
     = EmptySvg ''Eccentricity requires BeamN/BeamS. Provide BeamN & BeamS columns in CSV.''
   \<and> horizontalSpan (buildCrossLevelDiagramSvgString (3 / 8)
        [\<lparr>pt_stationFt = 5, pt_valueIn = 1 / 10\<rparr>, \<lparr>pt_stationFt = 5, pt_valueIn = 1 / 2\<rparr>])
       = Some 1
   \<and> horizontalSpan (buildChartSvg [5, 5] [[1 / 10, 1 / 5]] (- 1) 1 (Some (Constant (3 / 8))))
       = Some (1 / 1000000)"
proof -
  let ?d = "\<lparr>sd_stationFt = [5, 5], sd_railN = [1 / 10, 1 / 5], sd_railS = [0, 0 :: rat],
             sd_beamN = [None, None], sd_beamS = [None, None], sd_hasBeam = False\<rparr>"
  let ?pts = "[\<lparr>pt_stationFt = 5, pt_valueIn = 1 / 10\<rparr>, \<lparr>pt_stationFt = 5, pt_valueIn = 1 / 2\<rparr>]"
  note inst = renderers_degenerate_inputs [of "3 / 8" None ?d ?pts "[5, 5]" "[[1 / 10, 1 / 5]]"
      "- 1" 1 "Some (Constant (3 / 8))"]
  note i4 = inst [THEN conjunct2, THEN conjunct2, THEN conjunct2, THEN conjunct1]
  note i5 = inst [THEN conjunct2, THEN conjunct2, THEN conjunct2, THEN conjunct2, THEN conjunct1]
  note i6 = inst [THEN conjunct2, THEN conjunct2, THEN conjunct2, THEN conjunct2, THEN conjunct2]
  have nb: "\<forall>v\<in>set (sd_beamN ?d). v = None" by simp
  have a: "buildEccentricityChart (Some ?d) None
     = EmptySvg ''Eccentricity requires BeamN/BeamS. Provide BeamN & BeamS columns in CSV.''"
    using i4 nb by (rule mp)
  have ne: "?pts \<noteq> []" by simp
  have same: "\<forall>p\<in>set ?pts. \<forall>q\<in>set ?pts. pt_stationFt p = pt_stationFt q" by simp
  from i5 ne obtain sp where sp: "horizontalSpan (buildCrossLevelDiagramSvgString (3 / 8) ?pts) = Some sp"
    and sp1: "(\<forall>p\<in>set ?pts. \<forall>q\<in>set ?pts. pt_stationFt p = pt_stationFt q) \<longrightarrow> sp = 1"
    by blast
  from sp1 same have "sp = 1" by (rule mp)
  with sp have b: "horizontalSpan (buildCrossLevelDiagramSvgString (3 / 8) ?pts) = Some 1"
    by simp
  have same2: "\<forall>x\<in>set [5, 5 :: rat]. \<forall>y\<in>set [5, 5 :: rat]. x = y" by simp
  from i6 obtain sq where sq:
    "horizontalSpan (buildChartSvg [5, 5] [[1 / 10, 1 / 5]] (- 1) 1 (Some (Constant (3 / 8))))
       = Some sq"
    and sq1: "(\<forall>x\<in>set [5, 5 :: rat]. \<forall>y\<in>set [5, 5 :: rat]. x = y) \<longrightarrow> sq = 1 / 1000000"
    by blast
  from sq1 same2 have "sq = 1 / 1000000" by (rule mp)
  with sq have c:
    "horizontalSpan (buildChartSvg [5, 5] [[1 / 10, 1 / 5]] (- 1) 1 (Some (Constant (3 / 8))))
       = Some (1 / 1000000)"
    by simp
  from a b c show ?thesis by blast
qed

text \<open>
  C9 as stated fails for the charts: two survey rows at the same station, with beam
  values present, are drawn on a horizontal span of 0.000001, not 1.
\<close>

theorem chart_span_counterexample:
  "horizontalSpan (buildEccentricityChart
      (Some \<lparr>sd_stationFt = [5, 5], sd_railN = [0.1, 0.2], sd_railS = [0, 0],
             sd_beamN = [Some 0, Some 0], sd_beamS = [Some 0, Some 0], sd_hasBeam = True\<rparr>) None)
   = Some (1 / 1000000)"
proof -
  let ?d = "\<lparr>sd_stationFt = [5, 5], sd_railN = [0.1, 0.2], sd_railS = [0, 0],
             sd_beamN = [Some 0, Some 0], sd_beamS = [Some 0, Some 0], sd_hasBeam = True\<rparr>"
  have x: "chartXSpan [5, 5] = 1 / 1000000"
    by (simp add: chartXSpan_def mathMax_def mathMin_def)
  have b: "list_ex (\<lambda>v. v \<noteq> None) (sd_beamN ?d)" by simp
  have "horizontalSpan (buildEccentricityChart (Some ?d) None)
      = Some (chartXSpan (sd_stationFt ?d))"
    using b by (rule ecc_chart_span)
  also have "sd_stationFt ?d = [5, 5]" by simp
  finally show ?thesis using x by simp
qed

subsection \<open>Survey CSV import\<close>

text \<open>
  C8. When the required headers are present, the import keeps exactly the rows whose
  station and two rail cells parse as finite numbers and drops the others. With at least
  two such rows the survey handed to the chart builders is these rows, each with its five
  values, stably sorted by ascending station. With fewer than two, the parse error
  message is reported and the survey is cleared: the chart builders receive no series.
\<close>

theorem csv_import_valid_rows_sorted_or_none:
  assumes csv: "parseCsv cells lines = (headers, rows)"
    and idx: "idx = headerIndex normalizeHeader headers"
    and req: "idx ''stationft'' \<noteq> None" "idx ''railn'' \<noteq> None" "idx ''rails'' \<noteq> None"
    and valid: "valid = filter (validRow number idx) rows"
  shows "(length valid < 2 \<longrightarrow>
            parseSurveyClick cells normalizeHeader number lines
              = (None, Message
                  ''Survey parse error: Not enough valid rows parsed. Need at least 2 stations.''))
       \<and> (2 \<le> length valid \<longrightarrow>
            (\<exists>d. parseSurveyClick cells normalizeHeader number lines
                    = (Some d, SurveyParsed (length valid)
                         (idx ''beamn'' \<noteq> None \<and> idx ''beams'' \<noteq> None))
                \<and> length (sd_stationFt d) = length valid
                \<and> length (sd_railN d) = length valid
                \<and> length (sd_railS d) = length valid
                \<and> length (sd_beamN d) = length valid
                \<and> length (sd_beamS d) = length valid
                \<and> tableOf d = sort_key fst (map (rowValues number idx) valid)
                \<and> sorted (sd_stationFt d)
                \<and> mset (tableOf d) = mset (map (rowValues number idx) valid)))"
proof -
  let ?T = "map (rowValues number idx) valid"
  let ?S = "sort_key fst ?T"
  let ?d = "\<lparr>sd_stationFt = map fst ?S,
             sd_railN = map (\<lambda>t. fst (snd t)) ?S,
             sd_railS = map (\<lambda>t. fst (snd (snd t))) ?S,
             sd_beamN = map (\<lambda>t. fst (snd (snd (snd t)))) ?S,
             sd_beamS = map (\<lambda>t. snd (snd (snd (snd t)))) ?S,
             sd_hasBeam = (idx ''beamn'' \<noteq> None \<and> idx ''beams'' \<noteq> None)\<rparr>"
  have hne: "headers \<noteq> []" using idx req(1) by (auto simp add: headerIndex_Nil)
  have rows: "rows \<noteq> []" using csv hne by (rule parseCsv_rows)
  have T: "?T = map (rowValues number idx) (filter (validRow number idx) rows)"
    by (simp add: valid)
  have p: "parseSurveyData normalizeHeader number headers rows =
     (if length ?T < 2 then Threw ''Not enough valid rows parsed. Need at least 2 stations.''
      else Parsed ?d)"
    using idx req rows T by (rule parseSurveyData_ok)
  have few: "length valid < 2 \<longrightarrow>
            parseSurveyClick cells normalizeHeader number lines
              = (None, Message
                  ''Survey parse error: Not enough valid rows parsed. Need at least 2 stations.'')"
  proof
    assume "length valid < 2"
    then have "parseSurveyData normalizeHeader number headers rows
        = Threw ''Not enough valid rows parsed. Need at least 2 stations.''"
      unfolding p by simp
    then show "parseSurveyClick cells normalizeHeader number lines
              = (None, Message
                  ''Survey parse error: Not enough valid rows parsed. Need at least 2 stations.'')"
      by (simp add: parseSurveyClick_def csv)
  qed
  have many: "2 \<le> length valid \<longrightarrow>
            (\<exists>d. parseSurveyClick cells normalizeHeader number lines
                    = (Some d, SurveyParsed (length valid)
                         (idx ''beamn'' \<noteq> None \<and> idx ''beams'' \<noteq> None))
                \<and> length (sd_stationFt d) = length valid
                \<and> length (sd_railN d) = length valid
                \<and> length (sd_railS d) = length valid
                \<and> length (sd_beamN d) = length valid
                \<and> length (sd_beamS d) = length valid
                \<and> tableOf d = sort_key fst (map (rowValues number idx) valid)
                \<and> sorted (sd_stationFt d)
                \<and> mset (tableOf d) = mset (map (rowValues number idx) valid))"
  proof
    assume "2 \<le> length valid"
    then have pd: "parseSurveyData normalizeHeader number headers rows = Parsed ?d"
      unfolding p by simp
    have len: "length (sd_stationFt ?d) = length valid" by simp
    have click: "parseSurveyClick cells normalizeHeader number lines
        = (Some ?d, SurveyParsed (length valid)
             (idx ''beamn'' \<noteq> None \<and> idx ''beams'' \<noteq> None))"
      by (simp add: parseSurveyClick_def csv pd)
    have tab: "tableOf ?d = ?S" by (rule tableOf_columns)
    have srt: "sorted (sd_stationFt ?d)" by (simp add: sorted_sort_key)
    have ms: "mset (tableOf ?d) = mset ?T" unfolding tab by simp
    have l2: "length (sd_railN ?d) = length valid" by simp
    have l3: "length (sd_railS ?d) = length valid" by simp
    have l4: "length (sd_beamN ?d) = length valid" by simp
    have l5: "length (sd_beamS ?d) = length valid" by simp
    from click len l2 l3 l4 l5 tab srt ms
    show "\<exists>d. parseSurveyClick cells normalizeHeader number lines
                    = (Some d, SurveyParsed (length valid)
                         (idx ''beamn'' \<noteq> None \<and> idx ''beams'' \<noteq> None))
                \<and> length (sd_stationFt d) = length valid
                \<and> length (sd_railN d) = length valid
                \<and> length (sd_railS d) = length valid
                \<and> length (sd_beamN d) = length valid
                \<and> length (sd_beamS d) = length valid
                \<and> tableOf d = sort_key fst (map (rowValues number idx) valid)
                \<and> sorted (sd_stationFt d)
                \<and> mset (tableOf d) = mset (map (rowValues number idx) valid)"
      by (intro exI [of _ ?d] conjI)
  qed
  from few many show ?thesis by (rule conjI)
qed


theorem csv_import_valid_rows_sorted_or_none_witness:
  "(\<exists>d. parseSurveyClick sampleCells sampleNormalize sampleNumber
           [''StationFt,RailN,RailS'', ''10,3,4'', ''n/a,x,y'', ''0,1,2'']
         = (Some d, SurveyParsed 2 False)
       \<and> tableOf d = [(0, 1, 2, None, None), (10, 3, 4, None, None)])
   \<and> parseSurveyClick sampleCells sampleNormalize sampleNumber
         [''StationFt,RailN,RailS'', ''10,3,4'', ''n/a,x,y'']
       = (None, Message
           ''Survey parse error: Not enough valid rows parsed. Need at least 2 stations.'')"
proof -
  let ?headers = "[''StationFt'', ''RailN'', ''RailS'']"
  let ?idx = "headerIndex sampleNormalize ?headers"
  let ?r1 = "[''10'', ''3'', ''4'']" and ?r2 = "[''n/a,x,y'']" and ?r3 = "[''0'', ''1'', ''2'']"
  have i1: "?idx ''stationft'' = Some 0" by (simp add: headerIndex_def sampleNormalize_def)
  have i2: "?idx ''railn'' = Some 1" by (simp add: headerIndex_def sampleNormalize_def)
  have i3: "?idx ''rails'' = Some 2" by (simp add: headerIndex_def sampleNormalize_def)
  have i4: "?idx ''beamn'' = None" by (simp add: headerIndex_def sampleNormalize_def)
  have i5: "?idx ''beams'' = None" by (simp add: headerIndex_def sampleNormalize_def)
  have v1: "validRow sampleNumber ?idx ?r1"
    by (simp add: validRow_def rowCell_def i1 i2 i3 elemAt_def sampleNumber_def)
  have v2: "\<not> validRow sampleNumber ?idx ?r2"
    by (simp add: validRow_def rowCell_def i1 i2 i3 elemAt_def sampleNumber_def)
  have v3: "validRow sampleNumber ?idx ?r3"
    by (simp add: validRow_def rowCell_def i1 i2 i3 elemAt_def sampleNumber_def)
  have rv1: "rowValues sampleNumber ?idx ?r1 = (10, 3, 4, None, None)"
    by (simp add: rowValues_def rowCell_def i1 i2 i3 i4 i5 elemAt_def sampleNumber_def toNum_def)
  have rv3: "rowValues sampleNumber ?idx ?r3 = (0, 1, 2, None, None)"
    by (simp add: rowValues_def rowCell_def i1 i2 i3 i4 i5 elemAt_def sampleNumber_def toNum_def)
  have csvA: "parseCsv sampleCells [''StationFt,RailN,RailS'', ''10,3,4'', ''n/a,x,y'', ''0,1,2'']
      = (?headers, [?r1, ?r2, ?r3])"
    by (simp add: parseCsv_def sampleCells_def)
  have csvB: "parseCsv sampleCells [''StationFt,RailN,RailS'', ''10,3,4'', ''n/a,x,y'']
      = (?headers, [?r1, ?r2])"
    by (simp add: parseCsv_def sampleCells_def)
  have r1: "?idx ''stationft'' \<noteq> None" and r2: "?idx ''railn'' \<noteq> None"
    and r3: "?idx ''rails'' \<noteq> None"
    by (simp_all only: i1 i2 i3 option.distinct not_False_eq_True)
  have validA: "[?r1, ?r3] = filter (validRow sampleNumber ?idx) [?r1, ?r2, ?r3]"
    using v1 v2 v3 by simp
  have validB: "[?r1] = filter (validRow sampleNumber ?idx) [?r1, ?r2]"
    using v1 v2 by simp
  note instA = csv_import_valid_rows_sorted_or_none [OF csvA refl r1 r2 r3 validA]
  note instB = csv_import_valid_rows_sorted_or_none [OF csvB refl r1 r2 r3 validB]
  have "(2::nat) \<le> length [?r1, ?r3]" by simp
  with instA [THEN conjunct2] obtain d where
    d: "parseSurveyClick sampleCells sampleNormalize sampleNumber
           [''StationFt,RailN,RailS'', ''10,3,4'', ''n/a,x,y'', ''0,1,2'']
         = (Some d, SurveyParsed (length [?r1, ?r3]) (?idx ''beamn'' \<noteq> None \<and> ?idx ''beams'' \<noteq> None))"
    and t: "tableOf d = sort_key fst (map (rowValues sampleNumber ?idx) [?r1, ?r3])"
    by blast
  have d': "parseSurveyClick sampleCells sampleNormalize sampleNumber
           [''StationFt,RailN,RailS'', ''10,3,4'', ''n/a,x,y'', ''0,1,2'']
         = (Some d, SurveyParsed 2 False)"
    using d by (simp add: i4)
  have t': "tableOf d = [(0, 1, 2, None, None), (10, 3, 4, None, None)]"
    using t by (simp add: rv1 rv3)
  have "length [?r1] < 2" by simp
  with instB [THEN conjunct1] have e:
    "parseSurveyClick sampleCells sampleNormalize sampleNumber
         [''StationFt,RailN,RailS'', ''10,3,4'', ''n/a,x,y'']
       = (None, Message
           ''Survey parse error: Not enough valid rows parsed. Need at least 2 stations.'')"
    by (rule mp)
  from d' t' e show ?thesis by blast
qed


end
